theory Spec2Isabelle
  imports Complex_Main
begin

section \<open>ShapeShifter canvas component: data model\<close>

text \<open>
  The development embeds \<^verbatim>\<open>src/app/canvas/canvas.component.ts\<close>. JavaScript numbers are
  modelled as real numbers: rounding, NaN and the infinities of IEEE arithmetic are outside
  the model. A value that may be \<^verbatim>\<open>undefined\<close> is an \<open>option\<close>; a call that would raise
  a TypeError returns \<open>Inl TypeError\<close>.
\<close>

datatype error = TypeError

datatype Point = Point (xCoord: real) (yCoord: real)

text \<open>The six coefficients \<^verbatim>\<open>a..f\<close> that \<^verbatim>\<open>executeCommands\<close> reads from a matrix.\<close>

datatype Matrix =
  Matrix (m_a: real) (m_b: real) (m_c: real) (m_d: real) (m_e: real) (m_f: real)

text \<open>
  Modelled from the spec: the class \<^verbatim>\<open>Command\<close> of \<^verbatim>\<open>../scripts/paths\<close>. A command has one
  of five kinds, holds its start point (the end point of the previous command), its control
  points and its end point, and carries the flag \<^verbatim>\<open>isSplit\<close>. The arguments are the points
  in the order of \<^verbatim>\<open>getPoints()\<close>, followed by the flag.
\<close>

datatype Command =
    MoveTo Point Point bool
  | LineTo Point Point bool
  | QuadraticCurveTo Point Point Point bool
  | CubicCurveTo Point Point Point Point bool
  | ClosePath Point Point bool

fun getSvgChar :: "Command \<Rightarrow> char" where
  "getSvgChar (MoveTo s e f) = CHR ''M''"
| "getSvgChar (LineTo s e f) = CHR ''L''"
| "getSvgChar (QuadraticCurveTo s c1 e f) = CHR ''Q''"
| "getSvgChar (CubicCurveTo s c1 c2 e f) = CHR ''C''"
| "getSvgChar (ClosePath s e f) = CHR ''Z''"

fun getPoints :: "Command \<Rightarrow> Point list" where
  "getPoints (MoveTo s e f) = [s, e]"
| "getPoints (LineTo s e f) = [s, e]"
| "getPoints (QuadraticCurveTo s c1 e f) = [s, c1, e]"
| "getPoints (CubicCurveTo s c1 c2 e f) = [s, c1, c2, e]"
| "getPoints (ClosePath s e f) = [s, e]"

definition getStart :: "Command \<Rightarrow> Point" where
  "getStart cmd = hd (getPoints cmd)"

definition getEnd :: "Command \<Rightarrow> Point" where
  "getEnd cmd = last (getPoints cmd)"

fun isSplit :: "Command \<Rightarrow> bool" where
  "isSplit (MoveTo s e f) = f"
| "isSplit (LineTo s e f) = f"
| "isSplit (QuadraticCurveTo s c1 e f) = f"
| "isSplit (CubicCurveTo s c1 c2 e f) = f"
| "isSplit (ClosePath s e f) = f"

text \<open>
  Modelled from the spec: \<^verbatim>\<open>SubPath\<close> and \<^verbatim>\<open>Path\<close> of \<^verbatim>\<open>../scripts/paths\<close>: a subpath
  is an ordered sequence of commands, a path an ordered sequence of subpaths with its cached
  length. \<open>pathCommands\<close> is \<^verbatim>\<open>Path.getCommands()\<close>, the commands of all subpaths in order.
\<close>

record SubPath =
  getCommands :: "Command list"
  isCollapsing :: bool

record Path =
  getSubPaths :: "SubPath list"
  getPathLength :: real

definition pathCommands :: "Path \<Rightarrow> Command list" where
  "pathCommands p = concat (map getCommands (getSubPaths p))"

text \<open>
  Modelled from the spec: the layer classes of \<^verbatim>\<open>../scripts/layers\<close>, with the fields
  the component reads. \<open>isStroked\<close> and \<open>isFilled\<close> are the results of the methods of the
  same names.
\<close>

record GroupProps =
  pivotX :: real
  pivotY :: real
  translateX :: real
  translateY :: real
  rotation :: real
  scaleX :: real
  scaleY :: real

record PathProps =
  pathData :: Path
  strokeColor :: string
  strokeAlpha :: real
  strokeWidth :: real
  fillColor :: string
  fillAlpha :: real
  strokeLinecap :: string
  strokeLinejoin :: string
  strokeMiterLimit :: real
  trimPathStart :: real
  trimPathEnd :: real
  trimPathOffset :: real
  fillType :: string
  isStroked :: bool
  isFilled :: bool

datatype Layer =
    VectorLayer (lid: string) (children: "Layer list") (width: real) (height: real) (alpha: real)
  | GroupLayer (lid: string) (children: "Layer list") (groupProps: GroupProps)
  | PathLayer (lid: string) (pathProps: PathProps)
  | ClipPathLayer (lid: string) (clipPathData: Path)
where
  "children (PathLayer i p) = []"
| "children (ClipPathLayer i p) = []"

lemma size_children_list: "2 * size_list size (children l) < Suc (2 * size l)"
  by (cases l) auto

lemma size_children: "c \<in> set (children l) \<Longrightarrow> size c < size l"
  by (cases l) (auto simp: less_Suc_eq_le dest: size_list_estimation')

text \<open>
  Modelled from the spec: \<^verbatim>\<open>Layer.walk\<close>, the shared traversal of the layer tree. It
  visits a layer before its children, the children in order.
\<close>

function walk :: "Layer \<Rightarrow> Layer list" where
  "walk l = l # concat (map walk (children l))"
  by pat_completeness auto
termination
  by (relation "measure size") (auto simp: size_children)

declare walk.simps [simp del]

definition layerIds :: "Layer \<Rightarrow> string list" where
  "layerIds l = map lid (walk l)"

section \<open>External collaborators\<close>

text \<open>
  Modelled from the spec: what \<^verbatim>\<open>Path.project\<close> and \<^verbatim>\<open>Path.hitTest\<close> of
  \<^verbatim>\<open>../scripts/paths\<close> take and return. A projection is a target point, its distance and
  its parametric position, paired with the subpath and command it lies on. A hit test takes
  a predicate for points, a predicate for segments (each may be \<^verbatim>\<open>undefined\<close>), a flag for
  shapes and an optional restriction to subpaths, and returns the hits of each category and
  the flag \<^verbatim>\<open>isHit\<close>.
\<close>

record Projection =
  projX :: real
  projY :: real
  projD :: real
  projT :: real

record ProjectionOntoPath =
  projSubIdx :: nat
  projCmdIdx :: nat
  projection :: Projection

record Hit =
  hitSubIdx :: nat
  hitCmdIdx :: "nat option"

record HitResult =
  isHit :: bool
  endPointHits :: "Hit list"
  segmentHits :: "Hit list"
  shapeHits :: "Hit list"

record HitTestArgs =
  isPointInRangeFn :: "(real \<Rightarrow> Command \<Rightarrow> bool) option"
  isSegmentInRangeFn :: "(real \<Rightarrow> Command \<Rightarrow> bool) option"
  findShapesInRange :: bool
  argRestrictToSubIdx :: "nat list option"

text \<open>
  The matrix factories, the matrix and point utilities and the colour conversion live in
  \<^verbatim>\<open>../scripts/common\<close>, the path queries in \<^verbatim>\<open>../scripts/paths\<close>, outside the
  component. They are parameters of the model. \<open>matrixFlatten\<close> is \<^verbatim>\<open>Matrix.flatten\<close>,
  \<open>flattenTransforms\<close> is \<^verbatim>\<open>MathUtil.flattenTransforms\<close>.
\<close>

record Externals =
  fromTranslation :: "real \<Rightarrow> real \<Rightarrow> Matrix"
  fromRotation :: "real \<Rightarrow> Matrix"
  fromScaling :: "real \<Rightarrow> real \<Rightarrow> Matrix"
  flattenTransforms :: "Matrix list \<Rightarrow> Matrix"
  matrixFlatten :: "Matrix list \<Rightarrow> Matrix"
  invert :: "Matrix \<Rightarrow> Matrix"
  getScale :: "Matrix \<Rightarrow> real"
  transformPoint :: "Point \<Rightarrow> Matrix list \<Rightarrow> Point"
  androidToCssColor :: "string \<Rightarrow> real \<Rightarrow> string"
  project :: "Path \<Rightarrow> Point \<Rightarrow> nat option \<Rightarrow> ProjectionOntoPath option"
  hitTest :: "Path \<Rightarrow> Point \<Rightarrow> HitTestArgs \<Rightarrow> HitResult"

section \<open>Transform resolver\<close>

text \<open>
  \<^verbatim>\<open>getTransformsForLayer\<close> (lines 1198-1225). \<open>getTransformsFn\<close> is the inner recursive
  closure; \<open>getTransformsLoop\<close> is its \<^verbatim>\<open>for\<close> loop over the children that remain, which
  returns at the first child whose search succeeds. An empty array is truthy in JavaScript,
  so the test \<^verbatim>\<open>if (transforms)\<close> fails on \<^verbatim>\<open>undefined\<close> only.
\<close>

function getTransformsFn ::
    "Externals \<Rightarrow> string \<Rightarrow> Layer list \<Rightarrow> Layer \<Rightarrow> Matrix list option"
  and getTransformsLoop ::
    "Externals \<Rightarrow> string \<Rightarrow> Layer list \<Rightarrow> Layer \<Rightarrow> Layer list \<Rightarrow> Matrix list option"
where
  "getTransformsFn ex layerId parents current =
     (if lid current = layerId then
        Some (concat (map (\<lambda>layer.
          if \<not> is_GroupLayer layer then []
          else [fromTranslation ex (pivotX (groupProps layer)) (pivotY (groupProps layer)),
                fromTranslation ex (translateX (groupProps layer)) (translateY (groupProps layer)),
                fromRotation ex (rotation (groupProps layer)),
                fromScaling ex (scaleX (groupProps layer)) (scaleY (groupProps layer)),
                fromTranslation ex (- pivotX (groupProps layer)) (- pivotY (groupProps layer))])
          parents))
      else getTransformsLoop ex layerId parents current (children current))"
| "getTransformsLoop ex layerId parents current [] = None"
| "getTransformsLoop ex layerId parents current (child # rest) =
     (case getTransformsFn ex layerId (parents @ [current]) child of
        Some transforms \<Rightarrow> Some transforms
      | None \<Rightarrow> getTransformsLoop ex layerId parents current rest)"
  by pat_completeness auto
termination
  by (relation "measure (\<lambda>v. case v of
         Inl (ex, layerId, parents, current) \<Rightarrow> 2 * size current + 2
       | Inr (ex, layerId, parents, current, cs) \<Rightarrow> 2 * size_list size cs + 1)")
     (auto simp: size_children_list)

declare getTransformsFn.simps [simp del]

definition getTransformsForLayer :: "Externals \<Rightarrow> Layer \<Rightarrow> string \<Rightarrow> Matrix list option" where
  "getTransformsForLayer ex vectorLayer layerId = getTransformsFn ex layerId [] vectorLayer"

subsection \<open>The specification of the resolver\<close>

text \<open>
  \<open>ancestorChain root ps t\<close>: the layer \<open>t\<close> lies in the tree below \<open>root\<close> and \<open>ps\<close> are
  its proper ancestors, from \<open>root\<close> (outermost) down to its parent (innermost).
\<close>

inductive ancestorChain :: "Layer \<Rightarrow> Layer list \<Rightarrow> Layer \<Rightarrow> bool" where
  self: "ancestorChain l [] l"
| child: "c \<in> set (children l) \<Longrightarrow> ancestorChain c ps t \<Longrightarrow> ancestorChain l (l # ps) t"

text \<open>
  The matrices one ancestor contributes, in the words of the specification: five for a
  group layer, none for any other layer.
\<close>

fun ancestorMatrices :: "Externals \<Rightarrow> Layer \<Rightarrow> Matrix list" where
  "ancestorMatrices ex (GroupLayer i cs g) =
     [fromTranslation ex (pivotX g) (pivotY g),
      fromTranslation ex (translateX g) (translateY g),
      fromRotation ex (rotation g),
      fromScaling ex (scaleX g) (scaleY g),
      fromTranslation ex (- pivotX g) (- pivotY g)]"
| "ancestorMatrices ex (VectorLayer i cs w h a) = []"
| "ancestorMatrices ex (PathLayer i p) = []"
| "ancestorMatrices ex (ClipPathLayer i p) = []"

section \<open>The canvas component\<close>

datatype CanvasType = Start | Preview | End

datatype AppMode = SelectPoints | AddPoints | SplitSubPaths

text \<open>Only the comparison with \<open>Morphable\<close> is used by the component.\<close>

datatype MorphabilityStatus = NoStatus | Unmorphable | Morphable

datatype SelectionType = SubPathSelection | SegmentSelection | PointSelection

record Selection =
  selSubIdx :: nat
  selCmdIdx :: "nat option"
  selSource :: CanvasType
  selType :: SelectionType

record Hover =
  hoverSubIdx :: nat
  hoverCmdIdx :: "nat option"
  hoverSource :: CanvasType

text \<open>
  The three controllers are classes of their own; the component only constructs them. A
  segment splitter is constructed with the subpath it is restricted to.
\<close>

datatype PathSelector = PathSelector

datatype SegmentSplitter = SegmentSplitter (restrictToSubIdx: "nat option")

datatype ShapeSplitter = ShapeSplitter

text \<open>
  The fields of the component, followed by what it reads from its services and from the
  browser: the vector layer, the id of the active path and the active path layer (state
  service), the morphability status, the app mode, the selections, the hover, the cursor
  of the container and the device pixel ratio.
\<close>

record CanvasComponent =
  canvasType :: CanvasType
  isViewInit :: bool
  cssContainerWidth :: real
  cssContainerHeight :: real
  vlSizeWidth :: real
  vlSizeHeight :: real
  cssScale :: real
  attrScale :: real
  pathSelector :: "PathSelector option"
  segmentSplitter :: "SegmentSplitter option"
  shapeSplitter :: "ShapeSplitter option"
  disabledSubPathIndices :: "nat list"
  canvasCssWidth :: real
  canvasCssHeight :: real
  canvasAttrWidth :: real
  canvasAttrHeight :: real
  vectorLayer :: "Layer option"
  activePathId :: "string option"
  getActivePathLayer :: "PathProps option"
  getMorphabilityStatus :: MorphabilityStatus
  getAppMode :: AppMode
  getSelections :: "Selection list"
  getHover :: "Hover option"
  cursor :: string
  devicePixelRatio :: real

definition SPLIT_POINT_RADIUS_FACTOR :: real where
  "SPLIT_POINT_RADIUS_FACTOR = 0.8"

definition DISABLED_ALPHA :: real where
  "DISABLED_ALPHA = 0.38"

definition CANVAS_MARGIN :: real where
  "CANVAS_MARGIN = 36"

definition MEDIUM_POINT_RADIUS :: real where
  "MEDIUM_POINT_RADIUS = 8"

text \<open>
  JavaScript truthiness of an id: \<^verbatim>\<open>undefined\<close> and the empty string are falsy.
\<close>

definition truthy :: "string option \<Rightarrow> bool" where
  "truthy s = (case s of None \<Rightarrow> False | Some v \<Rightarrow> v \<noteq> [])"

subsection \<open>Getters (lines 284-356)\<close>

definition activePathLayer :: "CanvasComponent \<Rightarrow> PathProps option" where
  "activePathLayer this = (if truthy (activePathId this) then getActivePathLayer this else None)"

definition activePath :: "CanvasComponent \<Rightarrow> error + Path option" where
  "activePath this =
     (if truthy (activePathId this) then
        (case getActivePathLayer this of
           None \<Rightarrow> Inl TypeError
         | Some layer \<Rightarrow> Inr (Some (pathData layer)))
      else Inr None)"

definition shouldDrawLayers :: "CanvasComponent \<Rightarrow> bool" where
  "shouldDrawLayers this = (vectorLayer this \<noteq> None \<and> truthy (activePathId this))"

definition shouldDisableLayer :: "CanvasComponent \<Rightarrow> bool" where
  "shouldDisableLayer this =
     (canvasType this = Preview \<and> getMorphabilityStatus this \<noteq> Morphable)"

definition shouldProcessMouseEvents :: "CanvasComponent \<Rightarrow> bool" where
  "shouldProcessMouseEvents this = (canvasType this \<noteq> Preview \<and> truthy (activePathId this))"

text \<open>
  \<^verbatim>\<open>getTransformsForLayer(this.vectorLayer, this.activePathId)\<close>: without a vector layer
  the read of \<^verbatim>\<open>current.id\<close> raises; an \<^verbatim>\<open>undefined\<close> id equals the id of no layer.
\<close>

definition transformsForActiveLayer ::
    "Externals \<Rightarrow> CanvasComponent \<Rightarrow> error + Matrix list option" where
  "transformsForActiveLayer ex this =
     (case vectorLayer this of
        None \<Rightarrow> Inl TypeError
      | Some vl \<Rightarrow>
          (case activePathId this of
             None \<Rightarrow> Inr None
           | Some layerId \<Rightarrow> Inr (getTransformsForLayer ex vl layerId)))"

definition mediumPointRadius :: "CanvasComponent \<Rightarrow> real" where
  "mediumPointRadius this = MEDIUM_POINT_RADIUS / cssScale this"

text \<open>\<^verbatim>\<open>.reverse()\<close> on the result of the resolver: a TypeError on \<^verbatim>\<open>undefined\<close>.\<close>

definition reverse :: "error + Matrix list option \<Rightarrow> error + Matrix list" where
  "reverse r =
     (case r of
        Inl e \<Rightarrow> Inl e
      | Inr None \<Rightarrow> Inl TypeError
      | Inr (Some transforms) \<Rightarrow> Inr (rev transforms))"

subsection \<open>Projection and hit test (lines 363-425)\<close>

definition calculateProjectionOntoPath ::
    "Externals \<Rightarrow> CanvasComponent \<Rightarrow> Point \<Rightarrow> nat option \<Rightarrow> error + ProjectionOntoPath option"
where
  "calculateProjectionOntoPath ex this mousePoint restrict =
     (case reverse (transformsForActiveLayer ex this) of
        Inl e \<Rightarrow> Inl e
      | Inr transforms \<Rightarrow>
          (let transformedMousePoint =
                 transformPoint ex mousePoint [invert ex (flattenTransforms ex transforms)]
           in case activePathLayer this of
                None \<Rightarrow> Inl TypeError
              | Some layer \<Rightarrow>
                  (case project ex (pathData layer) transformedMousePoint restrict of
                     None \<Rightarrow> Inr None
                   | Some projInfo \<Rightarrow>
                       Inr (Some \<lparr>projSubIdx = projSubIdx projInfo,
                                  projCmdIdx = projCmdIdx projInfo,
                                  projection = projection projInfo\<rparr>))))"

record HitTestOpts =
  noPoints :: bool
  noSegments :: bool
  noShapes :: bool
  optRestrictToSubIdx :: "nat list option"

text \<open>
  The arguments \<^verbatim>\<open>performHitTest\<close> builds for \<^verbatim>\<open>Path.hitTest\<close> (lines 404-418). The
  segment predicate reads the stroke width of the active path layer; the same layer is
  read right after for \<^verbatim>\<open>isFilled()\<close>, which raises when there is none.
\<close>

definition hitTestArgs :: "CanvasComponent \<Rightarrow> HitTestOpts \<Rightarrow> error + HitTestArgs" where
  "hitTestArgs this opts =
     (let pointFn =
            (if \<not> noPoints opts then
               Some (\<lambda>distance cmd.
                 let multiplyFactor = (if isSplit cmd then SPLIT_POINT_RADIUS_FACTOR else 1)
                 in distance \<le> mediumPointRadius this * multiplyFactor)
             else None)
      in case activePathLayer this of
           None \<Rightarrow> Inl TypeError
         | Some layer \<Rightarrow>
             (let segmentFn =
                    (if \<not> noSegments opts then
                       Some (\<lambda>distance cmd. distance \<le> strokeWidth layer / 2)
                     else None)
              in Inr \<lparr>isPointInRangeFn = pointFn,
                      isSegmentInRangeFn = segmentFn,
                      findShapesInRange = (isFilled layer \<and> \<not> noShapes opts),
                      argRestrictToSubIdx = optRestrictToSubIdx opts\<rparr>))"

definition performHitTest ::
    "Externals \<Rightarrow> CanvasComponent \<Rightarrow> Point \<Rightarrow> HitTestOpts \<Rightarrow> error + HitResult" where
  "performHitTest ex this mousePoint opts =
     (case reverse (transformsForActiveLayer ex this) of
        Inl e \<Rightarrow> Inl e
      | Inr transforms \<Rightarrow>
          (let transformMatrix = invert ex (matrixFlatten ex transforms);
               transformedMousePoint = transformPoint ex mousePoint [transformMatrix]
           in case hitTestArgs this opts of
                Inl e \<Rightarrow> Inl e
              | Inr args \<Rightarrow>
                  (case activePath this of
                     Inl e \<Rightarrow> Inl e
                   | Inr None \<Rightarrow> Inl TypeError
                   | Inr (Some path) \<Rightarrow> Inr (hitTest ex path transformedMousePoint args))))"

subsection \<open>The drawing surface\<close>

text \<open>
  The four 2D contexts of the component, and the calls the component makes on a context:
  the methods of \<^verbatim>\<open>CanvasRenderingContext2D\<close> it uses and the properties it assigns. The
  effect of a function that draws is the list of its calls, each with its context, in the
  order they are made. A function that raises returns the error alone.
\<close>

datatype Context = RenderingCtx | OverlayCtx | OffscreenLayerCtx | OffscreenSubPathCtx

datatype CanvasCall =
    Ctx_save
  | Ctx_restore
  | Ctx_scale real real
  | Ctx_clearRect real real real real
  | Ctx_transform real real real real real real
  | Ctx_drawImage Context real real
  | Ctx_beginPath
  | Ctx_moveTo real real
  | Ctx_lineTo real real
  | Ctx_quadraticCurveTo real real real real
  | Ctx_bezierCurveTo real real real real real real
  | Ctx_closePath
  | Ctx_clip
  | Ctx_setLineDash "real list"
  | Ctx_stroke
  | Ctx_fill "string option"
  | Set_globalAlpha real
  | Set_strokeStyle string
  | Set_lineWidth real
  | Set_fillStyle string
  | Set_lineCap string
  | Set_lineJoin string
  | Set_miterLimit real
  | Set_lineDashOffset real

type_synonym Trace = "(Context \<times> CanvasCall) list"

subsection \<open>executeCommands (lines 1228-1273)\<close>

text \<open>
  Modelled from the spec: \<^verbatim>\<open>Point.equals\<close> of \<^verbatim>\<open>../scripts/common\<close>. Equality of points
  is exact numeric comparison; no point equals \<^verbatim>\<open>undefined\<close>, which is what the first
  command of a list is compared with.
\<close>

definition equals :: "Point \<Rightarrow> Point option \<Rightarrow> bool" where
  "equals p q =
     (case q of None \<Rightarrow> False | Some r \<Rightarrow> xCoord p = xCoord r \<and> yCoord p = yCoord r)"

text \<open>
  The body of the \<^verbatim>\<open>forEach\<close> callback for one command, given the end point of the
  command before it.
\<close>

definition executeCommand :: "Point option \<Rightarrow> Command \<Rightarrow> CanvasCall list" where
  "executeCommand previousEndPoint cmd =
     (let start = getStart cmd; endPoint = getEnd cmd
      in if getSvgChar cmd = CHR ''M'' then
           [Ctx_moveTo (xCoord endPoint) (yCoord endPoint)]
         else if getSvgChar cmd = CHR ''L'' then
           [Ctx_lineTo (xCoord endPoint) (yCoord endPoint)]
         else if getSvgChar cmd = CHR ''Q'' then
           [Ctx_quadraticCurveTo
              (xCoord (getPoints cmd ! 1)) (yCoord (getPoints cmd ! 1))
              (xCoord (getPoints cmd ! 2)) (yCoord (getPoints cmd ! 2))]
         else if getSvgChar cmd = CHR ''C'' then
           [Ctx_bezierCurveTo
              (xCoord (getPoints cmd ! 1)) (yCoord (getPoints cmd ! 1))
              (xCoord (getPoints cmd ! 2)) (yCoord (getPoints cmd ! 2))
              (xCoord (getPoints cmd ! 3)) (yCoord (getPoints cmd ! 3))]
         else if getSvgChar cmd = CHR ''Z'' then
           (if equals start previousEndPoint then [Ctx_closePath]
            else [Ctx_moveTo (xCoord start) (yCoord start),
                  Ctx_lineTo (xCoord endPoint) (yCoord endPoint)])
         else [])"

fun executeLoop :: "Point option \<Rightarrow> Command list \<Rightarrow> CanvasCall list" where
  "executeLoop previousEndPoint [] = []"
| "executeLoop previousEndPoint (cmd # rest) =
     executeCommand previousEndPoint cmd @ executeLoop (Some (getEnd cmd)) rest"

definition executeCommands :: "Context \<Rightarrow> Command list \<Rightarrow> Matrix list \<Rightarrow> Trace" where
  "executeCommands ctx commands transforms =
     map (Pair ctx)
       ([Ctx_save]
        @ map (\<lambda>m. Ctx_transform (m_a m) (m_b m) (m_c m) (m_d m) (m_e m) (m_f m)) transforms
        @ [Ctx_beginPath]
        @ (if length commands = 1 \<and> getSvgChar (commands ! 0) \<noteq> CHR ''M'' then
             [Ctx_moveTo (xCoord (getStart (commands ! 0))) (yCoord (getStart (commands ! 0)))]
           else [])
        @ executeLoop None commands
        @ [Ctx_restore])"

subsection \<open>drawPaths (lines 564-640)\<close>

text \<open>
  The remainder operator \<^verbatim>\<open>%\<close> of JavaScript on numbers: the quotient is truncated
  towards zero, so the result has the sign of the dividend. The divisor is not zero where
  the component uses it.
\<close>

definition jsRemainder :: "real \<Rightarrow> real \<Rightarrow> real" where
  "jsRemainder a n = a - n * of_int (if a / n < 0 then \<lceil>a / n\<rceil> else \<lfloor>a / n\<rfloor>)"

text \<open>
  The callback \<open>drawPaths\<close> passes to \<^verbatim>\<open>walk\<close>, for one layer of the tree. The transforms of
  a layer that is not found are \<^verbatim>\<open>undefined\<close>, and \<open>executeCommands\<close> raises on them. A
  stroke width is truthy when it is not zero.
\<close>

definition drawPathsVisit ::
    "Externals \<Rightarrow> Layer \<Rightarrow> Context \<Rightarrow> (Layer \<Rightarrow> Command list) \<Rightarrow> Layer \<Rightarrow> error + Trace" where
  "drawPathsVisit ex vl ctx extractDrawingCommandsFn layer =
     (if is_ClipPathLayer layer then
        (case getTransformsForLayer ex vl (lid layer) of
           None \<Rightarrow> Inl TypeError
         | Some transforms \<Rightarrow>
             Inr (executeCommands ctx (pathCommands (clipPathData layer)) transforms
                  @ [(ctx, Ctx_clip)]))
      else if \<not> is_PathLayer layer then Inr []
      else
        (let commands = extractDrawingCommandsFn layer; props = pathProps layer
         in if commands = [] then Inr []
            else
              (case getTransformsForLayer ex vl (lid layer) of
                 None \<Rightarrow> Inl TypeError
               | Some transforms \<Rightarrow>
                   (let strokeWidthMultiplier = getScale ex (flattenTransforms ex transforms)
                    in Inr
                      ([(ctx, Ctx_save)]
                       @ executeCommands ctx commands transforms
                       @ map (Pair ctx)
                          ([Set_strokeStyle
                              (androidToCssColor ex (strokeColor props) (strokeAlpha props)),
                            Set_lineWidth (strokeWidth props * strokeWidthMultiplier),
                            Set_fillStyle
                              (androidToCssColor ex (fillColor props) (fillAlpha props)),
                            Set_lineCap (strokeLinecap props),
                            Set_lineJoin (strokeLinejoin props),
                            Set_miterLimit (strokeMiterLimit props)]
                           @ (if trimPathStart props \<noteq> 0 \<or> trimPathEnd props \<noteq> 1
                                  \<or> trimPathOffset props \<noteq> 0 then
                                (let shownFraction =
                                       (if trimPathStart props > trimPathEnd props
                                        then trimPathEnd props - trimPathStart props + 1
                                        else trimPathEnd props - trimPathStart props)
                                 in [Ctx_setLineDash
                                       [shownFraction * getPathLength (pathData props),
                                        (1 - shownFraction + 0.001)
                                          * getPathLength (pathData props)],
                                     Set_lineDashOffset
                                       (getPathLength (pathData props)
                                        * (1 - jsRemainder
                                                 (trimPathStart props + trimPathOffset props) 1))])
                              else [Ctx_setLineDash []])
                           @ (if isStroked props \<and> strokeWidth props \<noteq> 0
                                  \<and> trimPathStart props \<noteq> trimPathEnd props
                              then [Ctx_stroke] else [])
                           @ (if isFilled props then
                                (if fillType props = ''evenOdd'' then [Ctx_fill (Some ''evenodd'')]
                                 else [Ctx_fill None])
                              else [])
                           @ [Ctx_restore]))))))"

text \<open>The walk over the layers; an exception in the callback ends it.\<close>

fun drawPathsLoop ::
    "Externals \<Rightarrow> Layer \<Rightarrow> Context \<Rightarrow> (Layer \<Rightarrow> Command list) \<Rightarrow> Layer list \<Rightarrow> error + Trace" where
  "drawPathsLoop ex vl ctx extractDrawingCommandsFn [] = Inr []"
| "drawPathsLoop ex vl ctx extractDrawingCommandsFn (layer # rest) =
     (case drawPathsVisit ex vl ctx extractDrawingCommandsFn layer of
        Inl e \<Rightarrow> Inl e
      | Inr calls \<Rightarrow>
          (case drawPathsLoop ex vl ctx extractDrawingCommandsFn rest of
             Inl e \<Rightarrow> Inl e
           | Inr others \<Rightarrow> Inr (calls @ others)))"

definition drawPaths ::
    "Externals \<Rightarrow> Layer \<Rightarrow> Context \<Rightarrow> (Layer \<Rightarrow> Command list) \<Rightarrow> error + Trace" where
  "drawPaths ex vl ctx extractDrawingCommandsFn =
     drawPathsLoop ex vl ctx extractDrawingCommandsFn (walk vl)"

subsection \<open>draw (lines 476-561)\<close>

definition setupCtxWithViewportCoords :: "CanvasComponent \<Rightarrow> Context \<Rightarrow> Trace" where
  "setupCtxWithViewportCoords this ctx =
     [(ctx, Ctx_scale (attrScale this) (attrScale this)),
      (ctx, Ctx_clearRect 0 0 (vlSizeWidth this) (vlSizeHeight this))]"

definition drawTranslucentOffscreenCtx ::
    "CanvasComponent \<Rightarrow> Context \<Rightarrow> Context \<Rightarrow> real \<Rightarrow> Trace" where
  "drawTranslucentOffscreenCtx this ctx offscreenCtx opacity =
     [(ctx, Ctx_save),
      (ctx, Set_globalAlpha opacity),
      (ctx, Ctx_scale (1 / attrScale this) (1 / attrScale this)),
      (ctx, Ctx_drawImage offscreenCtx 0 0),
      (ctx, Ctx_restore)]"

text \<open>
  The two functions \<open>draw\<close> passes to \<open>drawPaths\<close>: the commands of the disabled subpaths of
  the active path layer, and the commands of its enabled subpaths. Any other layer has no
  commands to draw.
\<close>

definition disabledCommands :: "CanvasComponent \<Rightarrow> Layer \<Rightarrow> Command list" where
  "disabledCommands this layer =
     (if Some (lid layer) \<noteq> activePathId this then []
      else concat (map (\<lambda>(subPath, subIdx).
             if subIdx \<in> set (disabledSubPathIndices this) then getCommands subPath else [])
             (zip (getSubPaths (pathData (pathProps layer)))
                  [0 ..< length (getSubPaths (pathData (pathProps layer)))])))"

definition enabledCommands :: "CanvasComponent \<Rightarrow> Layer \<Rightarrow> Command list" where
  "enabledCommands this layer =
     (if Some (lid layer) \<noteq> activePathId this then []
      else concat (map (\<lambda>(subPath, subIdx).
             if subIdx \<in> set (disabledSubPathIndices this) then [] else getCommands subPath)
             (zip (getSubPaths (pathData (pathProps layer)))
                  [0 ..< length (getSubPaths (pathData (pathProps layer)))])))"

definition currentAlpha :: "CanvasComponent \<Rightarrow> real" where
  "currentAlpha this =
     (let layerAlpha = (case vectorLayer this of None \<Rightarrow> 1 | Some vl \<Rightarrow> alpha vl)
      in (if shouldDisableLayer this then DISABLED_ALPHA else 1) * layerAlpha)"

text \<open>The block guarded by \<^verbatim>\<open>shouldDrawLayers\<close> (lines 495-530).\<close>

definition drawLayers :: "Externals \<Rightarrow> CanvasComponent \<Rightarrow> Context \<Rightarrow> error + Trace" where
  "drawLayers ex this layerCtx =
     (case vectorLayer this of
        None \<Rightarrow> Inr []
      | Some vl \<Rightarrow>
          if \<not> truthy (activePathId this) then Inr []
          else
            (let hasDisabledSubPaths = (disabledSubPathIndices this \<noteq> []);
                 subPathCtx = (if hasDisabledSubPaths then OffscreenSubPathCtx else layerCtx)
             in case drawPaths ex vl subPathCtx (disabledCommands this) of
                  Inl e \<Rightarrow> Inl e
                | Inr disabledCalls \<Rightarrow>
                    (case drawPaths ex vl layerCtx (enabledCommands this) of
                       Inl e \<Rightarrow> Inl e
                     | Inr enabledCalls \<Rightarrow>
                         Inr ((if hasDisabledSubPaths then
                                 (subPathCtx, Ctx_save)
                                 # setupCtxWithViewportCoords this subPathCtx
                               else [])
                              @ disabledCalls
                              @ (if hasDisabledSubPaths then
                                   drawTranslucentOffscreenCtx this layerCtx subPathCtx
                                     DISABLED_ALPHA
                                   @ [(subPathCtx, Ctx_restore)]
                                 else [])
                              @ enabledCalls))))"

text \<open>
  \<open>draw\<close>. The overlays are drawn last, by \<^verbatim>\<open>drawOverlays\<close> (lines 643-682), on the
  overlay context only; what it does in a state of the component is the parameter
  \<open>drawOverlays\<close>.
\<close>

definition draw ::
    "Externals \<Rightarrow> (CanvasComponent \<Rightarrow> error + Trace) \<Rightarrow> CanvasComponent \<Rightarrow> error + Trace" where
  "draw ex drawOverlays this =
     (if \<not> isViewInit this then Inr []
      else
        (let layerCtx = (if currentAlpha this < 1 then OffscreenLayerCtx else RenderingCtx)
         in case drawLayers ex this layerCtx of
              Inl e \<Rightarrow> Inl e
            | Inr layerCalls \<Rightarrow>
                (case drawOverlays this of
                   Inl e \<Rightarrow> Inl e
                 | Inr overlayCalls \<Rightarrow>
                     Inr ((RenderingCtx, Ctx_save)
                          # setupCtxWithViewportCoords this RenderingCtx
                          @ (if currentAlpha this < 1 then
                               (OffscreenLayerCtx, Ctx_save)
                               # setupCtxWithViewportCoords this OffscreenLayerCtx
                             else [])
                          @ layerCalls
                          @ (if currentAlpha this < 1 then
                               drawTranslucentOffscreenCtx this RenderingCtx OffscreenLayerCtx
                                 (currentAlpha this)
                               @ [(OffscreenLayerCtx, Ctx_restore)]
                             else [])
                          @ [(RenderingCtx, Ctx_restore)]
                          @ overlayCalls))))"

subsection \<open>Resizing (lines 136-147 and 430-471)\<close>

text \<open>
  \<open>resizeAndDraw\<close> returns the component with its new scales and canvas sizes, and what the
  final \<open>draw\<close> does. The redraw of the rulers belongs to the ruler directive.
\<close>

definition resizeAndDraw ::
    "Externals \<Rightarrow> (CanvasComponent \<Rightarrow> error + Trace) \<Rightarrow> CanvasComponent
      \<Rightarrow> CanvasComponent \<times> (error + Trace)" where
  "resizeAndDraw ex drawOverlays this =
     (if \<not> isViewInit this then (this, Inr [])
      else
        (let vlWidth = vlSizeWidth this;
             vlHeight = vlSizeHeight this;
             vectorAspectRatio = vlWidth / vlHeight;
             containerAspectRatio = cssContainerWidth this / cssContainerHeight this;
             newCssScale =
               (if vectorAspectRatio > containerAspectRatio
                then cssContainerWidth this / vlWidth
                else cssContainerHeight this / vlHeight);
             newAttrScale = newCssScale * devicePixelRatio this;
             cssWidth = vlWidth * newCssScale;
             cssHeight = vlHeight * newCssScale;
             resized = this\<lparr>cssScale := newCssScale,
                            attrScale := newAttrScale,
                            canvasAttrWidth := cssWidth * devicePixelRatio this,
                            canvasAttrHeight := cssHeight * devicePixelRatio this,
                            canvasCssWidth := cssWidth,
                            canvasCssHeight := cssHeight\<rparr>
         in (resized, draw ex drawOverlays resized)))"

text \<open>The subscriber of the canvas resize service, for a new size of the container.\<close>

definition onCanvasResize ::
    "Externals \<Rightarrow> (CanvasComponent \<Rightarrow> error + Trace) \<Rightarrow> CanvasComponent \<Rightarrow> real \<Rightarrow> real
      \<Rightarrow> CanvasComponent \<times> (error + Trace)" where
  "onCanvasResize ex drawOverlays this sizeWidth sizeHeight =
     (let oldWidth = cssContainerWidth this;
          oldHeight = cssContainerHeight this;
          updated = this\<lparr>cssContainerWidth := max 1 (sizeWidth - CANVAS_MARGIN * 2),
                         cssContainerHeight := max 1 (sizeHeight - CANVAS_MARGIN * 2)\<rparr>
      in if cssContainerWidth updated \<noteq> oldWidth \<or> cssContainerHeight updated \<noteq> oldHeight
         then resizeAndDraw ex drawOverlays updated
         else (updated, Inr []))"

subsection \<open>The app mode subscriber (lines 187-224)\<close>

definition showPenCursor :: "CanvasComponent \<Rightarrow> CanvasComponent" where
  "showPenCursor this = this\<lparr>cursor := ''url(/assets/penaddcursorsmall.png) 5 0, auto''\<rparr>"

definition resetCursor :: "CanvasComponent \<Rightarrow> CanvasComponent" where
  "resetCursor this = this\<lparr>cursor := []\<rparr>"

text \<open>
  The elements of a JavaScript \<^verbatim>\<open>Set\<close> filled from a list, as \<^verbatim>\<open>Array.from\<close> lists them:
  in the order of their first insertion.
\<close>

definition setToArray :: "nat list \<Rightarrow> nat list" where
  "setToArray xs = rev (remdups (rev xs))"

text \<open>
  The subscriber runs after the app mode service has taken the new mode, which
  \<open>getAppMode\<close> returns. It returns the component, with the state of the selection and hover
  services after their \<^verbatim>\<open>reset()\<close>, and what the final \<open>draw\<close> does.
\<close>

definition onAppModeChanged ::
    "Externals \<Rightarrow> (CanvasComponent \<Rightarrow> error + Trace) \<Rightarrow> CanvasComponent
      \<Rightarrow> CanvasComponent \<times> (error + Trace)" where
  "onAppModeChanged ex drawOverlays this =
     (let this1 =
            (if getAppMode this = AddPoints
                \<or> (getAppMode this = SplitSubPaths
                    \<and> (case activePathLayer this of None \<Rightarrow> False | Some layer \<Rightarrow> isStroked layer))
             then
               (let toArray = setToArray (map selSubIdx (getSelections this));
                    restrict = (if toArray \<noteq> [] then Some (toArray ! 0) else None)
                in (showPenCursor this)\<lparr>segmentSplitter := Some (SegmentSplitter restrict)\<rparr>)
             else this\<lparr>segmentSplitter := None\<rparr>);
          this2 =
            (if getAppMode this1 = SelectPoints
             then (resetCursor this1)\<lparr>pathSelector := Some PathSelector\<rparr>
             else this1\<lparr>pathSelector := None\<rparr>);
          this3 =
            (if getAppMode this2 = SplitSubPaths
                \<and> (case activePathLayer this2 of None \<Rightarrow> False | Some layer \<Rightarrow> isFilled layer)
             then (showPenCursor this2)\<lparr>shapeSplitter := Some ShapeSplitter\<rparr>
             else this2\<lparr>shapeSplitter := None\<rparr>);
          this4 =
            (if getAppMode this3 \<noteq> AddPoints then this3\<lparr>getSelections := []\<rparr> else this3);
          this5 = this4\<lparr>getHover := None\<rparr>
      in (this5, draw ex drawOverlays this5))"

text \<open>The number of controllers the component holds.\<close>

definition controllerCount :: "CanvasComponent \<Rightarrow> nat" where
  "controllerCount this =
     (if pathSelector this \<noteq> None then 1 else 0)
     + (if segmentSplitter this \<noteq> None then 1 else 0)
     + (if shapeSplitter this \<noteq> None then 1 else 0)"

subsection \<open>Double click (lines 1147-1169)\<close>

text \<open>
  \<open>mouseEvent\<close> is the point \<^verbatim>\<open>mouseEventToPoint\<close> made of the event. The handler returns
  the component with the selections and the app mode it has set on the services; it ends
  with \<^verbatim>\<open>drawOverlays()\<close>. The last element of an empty array is \<^verbatim>\<open>undefined\<close>, and
  reading its \<^verbatim>\<open>subIdx\<close> raises.
\<close>

definition onDoubleClick ::
    "Externals \<Rightarrow> CanvasComponent \<Rightarrow> Point \<Rightarrow> error + CanvasComponent" where
  "onDoubleClick ex this mouseEvent =
     (if \<not> shouldProcessMouseEvents this then Inr this
      else if getAppMode this = SelectPoints then
        (case activePathLayer this of
           None \<Rightarrow> Inl TypeError
         | Some layer \<Rightarrow>
             (case performHitTest ex this mouseEvent
                     \<lparr>noPoints = False, noSegments = \<not> isStroked layer, noShapes = False,
                      optRestrictToSubIdx = None\<rparr> of
                Inl e \<Rightarrow> Inl e
              | Inr hitResult \<Rightarrow>
                  if isHit hitResult then
                    (let hits = segmentHits hitResult @ shapeHits hitResult
                                @ endPointHits hitResult
                     in if hits = [] then Inl TypeError
                        else Inr (this\<lparr>getSelections :=
                                          [\<lparr>selSubIdx = hitSubIdx (last hits),
                                            selCmdIdx = None,
                                            selSource = canvasType this,
                                            selType = SubPathSelection\<rparr>],
                                        getAppMode := AddPoints\<rparr>))
                  else Inr this))
      else Inr this)"

subsection \<open>Observations on the calls\<close>

text \<open>
  The end point of the command before a command that follows the commands \<open>pre\<close>: none for
  the first command of a list.
\<close>

definition previousEnd :: "Command list \<Rightarrow> Point option" where
  "previousEnd pre = (if pre = [] then None else Some (getEnd (last pre)))"

text \<open>The calls that set the dash pattern of a context: the dash array and the dash offset.\<close>

definition isLineDashCall :: "CanvasCall \<Rightarrow> bool" where
  "isLineDashCall call =
     (case call of Ctx_setLineDash segments \<Rightarrow> True | Set_lineDashOffset offset \<Rightarrow> True | _ \<Rightarrow> False)"

text \<open>
  What a hit test is asked to accept: a point (a segment) at distance \<open>distance\<close> of the
  command \<open>cmd\<close> is accepted when the predicate built for it exists and holds; shapes are
  tested when \<open>findShapesInRange\<close> is set.
\<close>

definition pointHitAccepted :: "CanvasComponent \<Rightarrow> HitTestOpts \<Rightarrow> real \<Rightarrow> Command \<Rightarrow> bool" where
  "pointHitAccepted this opts distance cmd =
     (case hitTestArgs this opts of
        Inl e \<Rightarrow> False
      | Inr args \<Rightarrow>
          (case isPointInRangeFn args of None \<Rightarrow> False | Some inRange \<Rightarrow> inRange distance cmd))"

definition segmentHitAccepted :: "CanvasComponent \<Rightarrow> HitTestOpts \<Rightarrow> real \<Rightarrow> Command \<Rightarrow> bool" where
  "segmentHitAccepted this opts distance cmd =
     (case hitTestArgs this opts of
        Inl e \<Rightarrow> False
      | Inr args \<Rightarrow>
          (case isSegmentInRangeFn args of None \<Rightarrow> False | Some inRange \<Rightarrow> inRange distance cmd))"

definition shapesTested :: "CanvasComponent \<Rightarrow> HitTestOpts \<Rightarrow> bool" where
  "shapesTested this opts =
     (case hitTestArgs this opts of Inl e \<Rightarrow> False | Inr args \<Rightarrow> findShapesInRange args)"

section \<open>Example values\<close>

text \<open>
  A square of perimeter 100, drawn by a stroked path layer inside one group layer, and a
  component of the start canvas showing it.
\<close>

definition examplePath :: Path where
  "examplePath =
     \<lparr>getSubPaths =
        [\<lparr>getCommands =
            [MoveTo (Point 0 0) (Point 0 0) False,
             LineTo (Point 0 0) (Point 25 0) False,
             LineTo (Point 25 0) (Point 25 25) False,
             LineTo (Point 25 25) (Point 0 25) True,
             ClosePath (Point 0 25) (Point 0 0) False],
          isCollapsing = False\<rparr>],
      getPathLength = 100\<rparr>"

definition examplePathProps :: PathProps where
  "examplePathProps =
     \<lparr>pathData = examplePath, strokeColor = ''#000000'', strokeAlpha = 1, strokeWidth = 2,
      fillColor = [], fillAlpha = 1, strokeLinecap = ''butt'', strokeLinejoin = ''miter'',
      strokeMiterLimit = 4, trimPathStart = 1/4, trimPathEnd = 3/4, trimPathOffset = 0,
      fillType = ''nonZero'', isStroked = True, isFilled = False\<rparr>"

definition exampleGroupProps :: GroupProps where
  "exampleGroupProps =
     \<lparr>pivotX = 12, pivotY = 12, translateX = 3, translateY = 4, rotation = 0,
      scaleX = 2, scaleY = 2\<rparr>"

definition examplePathLayer :: Layer where
  "examplePathLayer = PathLayer ''path'' examplePathProps"

definition exampleGroupLayer :: Layer where
  "exampleGroupLayer = GroupLayer ''group'' [examplePathLayer] exampleGroupProps"

definition exampleVectorLayer :: Layer where
  "exampleVectorLayer = VectorLayer ''vector'' [exampleGroupLayer] 24 24 1"

definition dot :: "Matrix \<Rightarrow> Matrix \<Rightarrow> Matrix" where
  "dot m n =
     Matrix (m_a m * m_a n + m_c m * m_b n) (m_b m * m_a n + m_d m * m_b n)
            (m_a m * m_c n + m_c m * m_d n) (m_b m * m_c n + m_d m * m_d n)
            (m_a m * m_e n + m_c m * m_f n + m_e m) (m_b m * m_e n + m_d m * m_f n + m_f m)"

definition exampleExternals :: Externals where
  "exampleExternals =
     \<lparr>fromTranslation = (\<lambda>tx ty. Matrix 1 0 0 1 tx ty),
      fromRotation = (\<lambda>degrees. Matrix (cos (degrees * pi / 180)) (sin (degrees * pi / 180))
                                    (- sin (degrees * pi / 180)) (cos (degrees * pi / 180)) 0 0),
      fromScaling = (\<lambda>sx sy. Matrix sx 0 0 sy 0 0),
      flattenTransforms = (\<lambda>ms. foldr dot ms (Matrix 1 0 0 1 0 0)),
      matrixFlatten = (\<lambda>ms. foldr dot ms (Matrix 1 0 0 1 0 0)),
      invert = (\<lambda>m. m),
      getScale = (\<lambda>m. max \<bar>m_a m\<bar> \<bar>m_d m\<bar>),
      transformPoint = (\<lambda>p ms. p),
      androidToCssColor = (\<lambda>color opacity. color),
      project = (\<lambda>path p restrict. None),
      hitTest = (\<lambda>path p args.
        \<lparr>isHit = False, endPointHits = [], segmentHits = [], shapeHits = []\<rparr>)\<rparr>"

definition exampleComponent :: CanvasComponent where
  "exampleComponent =
     \<lparr>canvasType = Start, isViewInit = True,
      cssContainerWidth = 480, cssContainerHeight = 240,
      vlSizeWidth = 24, vlSizeHeight = 24, cssScale = 10, attrScale = 20,
      pathSelector = Some PathSelector, segmentSplitter = None, shapeSplitter = None,
      disabledSubPathIndices = [],
      canvasCssWidth = 240, canvasCssHeight = 240, canvasAttrWidth = 480, canvasAttrHeight = 480,
      vectorLayer = Some exampleVectorLayer, activePathId = Some ''path'',
      getActivePathLayer = Some examplePathProps, getMorphabilityStatus = Morphable,
      getAppMode = SelectPoints, getSelections = [], getHover = None,
      cursor = [], devicePixelRatio = 2\<rparr>"

definition exampleOpts :: HitTestOpts where
  "exampleOpts =
     \<lparr>noPoints = False, noSegments = False, noShapes = False, optRestrictToSubIdx = None\<rparr>"

definition noPointsOpts :: HitTestOpts where
  "noPointsOpts = exampleOpts\<lparr>noPoints := True\<rparr>"

definition unstrokedPathProps :: PathProps where
  "unstrokedPathProps = examplePathProps\<lparr>strokeColor := [], isStroked := False\<rparr>"

definition unstrokedComponent :: CanvasComponent where
  "unstrokedComponent = exampleComponent\<lparr>getActivePathLayer := Some unstrokedPathProps\<rparr>"

text \<open>An overlay pass that draws nothing.\<close>

definition noOverlays :: "CanvasComponent \<Rightarrow> error + Trace" where
  "noOverlays this = Inr []"

definition exampleSelection :: Selection where
  "exampleSelection =
     \<lparr>selSubIdx = 0, selCmdIdx = None, selSource = Start, selType = SubPathSelection\<rparr>"

definition strokedFilledPathProps :: PathProps where
  "strokedFilledPathProps = examplePathProps\<lparr>fillColor := ''#ff0000'', isFilled := True\<rparr>"

definition splitSubPathsComponent :: CanvasComponent where
  "splitSubPathsComponent =
     exampleComponent\<lparr>getActivePathLayer := Some strokedFilledPathProps,
                      getAppMode := SplitSubPaths\<rparr>"

definition addPointsComponent :: CanvasComponent where
  "addPointsComponent =
     exampleComponent\<lparr>getAppMode := AddPoints, getSelections := [exampleSelection]\<rparr>"

definition selectPointsComponent :: CanvasComponent where
  "selectPointsComponent =
     exampleComponent\<lparr>pathSelector := None, segmentSplitter := Some (SegmentSplitter (Some 0)),
                      getAppMode := SelectPoints, getSelections := [exampleSelection]\<rparr>"

definition exampleHitResult :: HitResult where
  "exampleHitResult =
     \<lparr>isHit = True,
      endPointHits = [\<lparr>hitSubIdx = 2, hitCmdIdx = Some 1\<rparr>],
      segmentHits = [\<lparr>hitSubIdx = 0, hitCmdIdx = Some 3\<rparr>],
      shapeHits = [\<lparr>hitSubIdx = 1, hitCmdIdx = None\<rparr>]\<rparr>"

definition hitExternals :: Externals where
  "hitExternals = exampleExternals\<lparr>hitTest := (\<lambda>path p args. exampleHitResult)\<rparr>"

text \<open>
  A preview canvas whose paths are not morphable, with the first subpath disabled; the
  commands of the example path and the calls that draw the example path layer.
\<close>

definition previewComponent :: CanvasComponent where
  "previewComponent =
     exampleComponent\<lparr>canvasType := Preview, getMorphabilityStatus := Unmorphable,
                      disabledSubPathIndices := [0]\<rparr>"

definition exampleCommands :: "Command list" where
  "exampleCommands =
     [MoveTo (Point 0 0) (Point 0 0) False,
      LineTo (Point 0 0) (Point 25 0) False,
      LineTo (Point 25 0) (Point 25 25) False,
      LineTo (Point 25 25) (Point 0 25) True,
      ClosePath (Point 0 25) (Point 0 0) False]"

definition examplePathCalls :: "CanvasCall list" where
  "examplePathCalls =
     [Ctx_save,
      Ctx_save,
      Ctx_transform 1 0 0 1 12 12, Ctx_transform 1 0 0 1 3 4, Ctx_transform 1 0 0 1 0 0,
      Ctx_transform 2 0 0 2 0 0, Ctx_transform 1 0 0 1 (-12) (-12),
      Ctx_beginPath,
      Ctx_moveTo 0 0, Ctx_lineTo 25 0, Ctx_lineTo 25 25, Ctx_lineTo 0 25, Ctx_closePath,
      Ctx_restore,
      Set_strokeStyle ''#000000'', Set_lineWidth 4, Set_fillStyle [],
      Set_lineCap ''butt'', Set_lineJoin ''miter'', Set_miterLimit 4,
      Ctx_setLineDash [50, 50.1], Set_lineDashOffset 75,
      Ctx_stroke,
      Ctx_restore]"

text \<open>
  A second tree: its path layer is trimmed across the end of the path (start 3/4, end 1/4,
  offset 1/2) and its vector layer has alpha 1/2; and a preview canvas that shows it, not
  morphable, with the first subpath disabled.
\<close>

definition wrappedPathProps :: PathProps where
  "wrappedPathProps =
     examplePathProps\<lparr>trimPathStart := 3/4, trimPathEnd := 1/4, trimPathOffset := 1/2\<rparr>"

definition wrappedPathLayer :: Layer where
  "wrappedPathLayer = PathLayer ''path'' wrappedPathProps"

definition wrappedGroupLayer :: Layer where
  "wrappedGroupLayer = GroupLayer ''group'' [wrappedPathLayer] exampleGroupProps"

definition wrappedVectorLayer :: Layer where
  "wrappedVectorLayer = VectorLayer ''vector'' [wrappedGroupLayer] 24 24 (1/2)"

definition dimmedComponent :: CanvasComponent where
  "dimmedComponent =
     previewComponent\<lparr>vectorLayer := Some wrappedVectorLayer,
                      getActivePathLayer := Some wrappedPathProps\<rparr>"

section \<open>Properties of the transform resolver\<close>

lemma layerIds_unfold: "layerIds l = lid l # concat (map layerIds (children l))"
proof -
  have "walk l = l # concat (map walk (children l))"
    by (rule walk.simps)
  then show ?thesis
    by (simp add: layerIds_def [abs_def] map_concat comp_def)
qed

lemma distinct_concat_member:
  "distinct (concat (map f xs)) \<Longrightarrow> x \<in> set xs \<Longrightarrow> distinct (f x)"
  by (induction xs) auto

lemma flatMap_parents:
  "concat (map (\<lambda>layer.
      if \<not> is_GroupLayer layer then []
      else [fromTranslation ex (pivotX (groupProps layer)) (pivotY (groupProps layer)),
            fromTranslation ex (translateX (groupProps layer)) (translateY (groupProps layer)),
            fromRotation ex (rotation (groupProps layer)),
            fromScaling ex (scaleX (groupProps layer)) (scaleY (groupProps layer)),
            fromTranslation ex (- pivotX (groupProps layer)) (- pivotY (groupProps layer))])
      parents) = concat (map (ancestorMatrices ex) parents)"
proof -
  have "(\<lambda>layer.
      if \<not> is_GroupLayer layer then []
      else [fromTranslation ex (pivotX (groupProps layer)) (pivotY (groupProps layer)),
            fromTranslation ex (translateX (groupProps layer)) (translateY (groupProps layer)),
            fromRotation ex (rotation (groupProps layer)),
            fromScaling ex (scaleX (groupProps layer)) (scaleY (groupProps layer)),
            fromTranslation ex (- pivotX (groupProps layer)) (- pivotY (groupProps layer))])
      = ancestorMatrices ex"
  proof
    fix layer
    show "(if \<not> is_GroupLayer layer then []
      else [fromTranslation ex (pivotX (groupProps layer)) (pivotY (groupProps layer)),
            fromTranslation ex (translateX (groupProps layer)) (translateY (groupProps layer)),
            fromRotation ex (rotation (groupProps layer)),
            fromScaling ex (scaleX (groupProps layer)) (scaleY (groupProps layer)),
            fromTranslation ex (- pivotX (groupProps layer)) (- pivotY (groupProps layer))])
      = ancestorMatrices ex layer"
      by (cases layer) simp_all
  qed
  then show ?thesis by simp
qed

lemma getTransformsFn_hit:
  "lid current = layerId \<Longrightarrow>
   getTransformsFn ex layerId parents current = Some (concat (map (ancestorMatrices ex) parents))"
  by (simp add: getTransformsFn.simps flatMap_parents)

lemma getTransformsFn_miss:
  "lid current \<noteq> layerId \<Longrightarrow>
   getTransformsFn ex layerId parents current =
     getTransformsLoop ex layerId parents current (children current)"
  by (simp add: getTransformsFn.simps)

text \<open>An id that occurs nowhere below a layer is not found there.\<close>

lemma getTransforms_absent:
  "layerId \<notin> set (layerIds current) \<longrightarrow> getTransformsFn ex layerId parents current = None"
  "(\<forall>c \<in> set cs. layerId \<notin> set (layerIds c)) \<longrightarrow>
     getTransformsLoop ex layerId parents current cs = None"
proof (induction ex layerId parents current and ex layerId parents current cs
    rule: getTransformsFn_getTransformsLoop.induct)
  case (1 ex layerId parents current)
  show ?case
  proof
    assume absent: "layerId \<notin> set (layerIds current)"
    then have ne: "lid current \<noteq> layerId" and
      below: "\<forall>c \<in> set (children current). layerId \<notin> set (layerIds c)"
      by (subst (asm) layerIds_unfold, auto)+
    from "1" ne below show "getTransformsFn ex layerId parents current = None"
      by (simp add: getTransformsFn_miss)
  qed
next
  case (2 ex layerId parents current)
  show ?case by simp
next
  case (3 ex layerId parents current child rest)
  then show ?case by simp
qed

text \<open>An id that occurs below a layer is found there.\<close>

lemma getTransforms_present:
  "layerId \<in> set (layerIds current) \<longrightarrow> getTransformsFn ex layerId parents current \<noteq> None"
  "(\<exists>c \<in> set cs. layerId \<in> set (layerIds c)) \<longrightarrow>
     getTransformsLoop ex layerId parents current cs \<noteq> None"
proof (induction ex layerId parents current and ex layerId parents current cs
    rule: getTransformsFn_getTransformsLoop.induct)
  case (1 ex layerId parents current)
  show ?case
  proof
    assume present: "layerId \<in> set (layerIds current)"
    show "getTransformsFn ex layerId parents current \<noteq> None"
    proof (cases "lid current = layerId")
      case True
      then show ?thesis by (simp add: getTransformsFn_hit)
    next
      case False
      with present have "\<exists>c \<in> set (children current). layerId \<in> set (layerIds c)"
        by (subst (asm) layerIds_unfold) auto
      with "1" False show ?thesis
        by (simp add: getTransformsFn_miss)
    qed
  qed
next
  case (2 ex layerId parents current)
  show ?case by simp
next
  case (3 ex layerId parents current child rest)
  then show ?case by (auto split: option.splits)
qed

lemma ancestorChain_target_id: "ancestorChain l ps t \<Longrightarrow> lid t \<in> set (layerIds l)"
proof (induction rule: ancestorChain.induct)
  case (self l)
  show ?case by (subst layerIds_unfold) simp
next
  case (child c l ps t)
  then show ?case by (subst layerIds_unfold) auto
qed

text \<open>The loop returns what the search below the child returns, when the ids are unique.\<close>

lemma getTransformsLoop_child:
  assumes "c \<in> set cs"
    and "distinct (concat (map layerIds cs))"
    and "layerId \<in> set (layerIds c)"
  shows "getTransformsLoop ex layerId parents current cs =
         getTransformsFn ex layerId (parents @ [current]) c"
  using assms
proof (induction cs)
  case Nil
  then show ?case by simp
next
  case (Cons a cs)
  show ?case
  proof (cases "a = c")
    case True
    with Cons.prems(3) have "getTransformsFn ex layerId (parents @ [current]) a \<noteq> None"
      using getTransforms_present(1) by blast
    with True show ?thesis by (auto split: option.splits)
  next
    case False
    with Cons.prems have mem: "c \<in> set cs" by simp
    from Cons.prems mem have "layerId \<notin> set (layerIds a)" by auto
    then have "getTransformsFn ex layerId (parents @ [current]) a = None"
      using getTransforms_absent(1) by blast
    moreover from Cons.prems have "distinct (concat (map layerIds cs))" by simp
    ultimately show ?thesis
      using Cons.IH mem Cons.prems(3) by simp
  qed
qed

lemma getTransformsFn_chain:
  "ancestorChain l ps t \<Longrightarrow> distinct (layerIds l) \<Longrightarrow>
   getTransformsFn ex (lid t) parents l = Some (concat (map (ancestorMatrices ex) (parents @ ps)))"
proof (induction arbitrary: parents rule: ancestorChain.induct)
  case (self l)
  show ?case by (simp add: getTransformsFn_hit)
next
  case (child c l ps t)
  have ids: "layerIds l = lid l # concat (map layerIds (children l))"
    by (rule layerIds_unfold)
  have tc: "lid t \<in> set (layerIds c)"
    using child.hyps(2) by (rule ancestorChain_target_id)
  from child.prems ids have d: "distinct (concat (map layerIds (children l)))"
    and fresh: "lid l \<notin> set (concat (map layerIds (children l)))"
    by simp_all
  from fresh tc child.hyps(1) have ne: "lid l \<noteq> lid t" by auto
  have dc: "distinct (layerIds c)"
    using d child.hyps(1) by (rule distinct_concat_member)
  have "getTransformsFn ex (lid t) parents l =
        getTransformsLoop ex (lid t) parents l (children l)"
    using ne by (rule getTransformsFn_miss)
  also have "\<dots> = getTransformsFn ex (lid t) (parents @ [l]) c"
    using child.hyps(1) d tc by (rule getTransformsLoop_child)
  also have "\<dots> = Some (concat (map (ancestorMatrices ex) ((parents @ [l]) @ ps)))"
    using dc by (rule child.IH)
  finally show ?case by simp
qed

text \<open>
  C1. When the ids of the tree are unique and \<open>t\<close> is a layer of the tree with proper
  ancestors \<open>ps\<close> (outermost first), \<open>getTransformsForLayer\<close> on the id of \<open>t\<close> returns the
  concatenation over \<open>ps\<close> of the five matrices of each group layer (translation by the
  pivot, translation, rotation, scaling, translation by the negated pivot); the other
  ancestors contribute nothing.
\<close>

theorem getTransformsForLayer_ancestors:
  assumes "distinct (layerIds vl)"
    and "ancestorChain vl ps t"
  shows "getTransformsForLayer ex vl (lid t) =
         Some (concat (map (ancestorMatrices ex) ps))"
  using getTransformsFn_chain [OF assms(2) assms(1), of ex "[]"]
  by (simp add: getTransformsForLayer_def)

lemma exampleVectorLayer_ids: "layerIds exampleVectorLayer = [''vector'', ''group'', ''path'']"
  by (simp add: layerIds_unfold exampleVectorLayer_def exampleGroupLayer_def examplePathLayer_def)

lemma exampleVectorLayer_chain:
  "ancestorChain exampleVectorLayer [exampleVectorLayer, exampleGroupLayer] examplePathLayer"
proof -
  have c1: "ancestorChain examplePathLayer [] examplePathLayer"
    by (rule ancestorChain.self)
  have c2: "ancestorChain exampleGroupLayer [exampleGroupLayer] examplePathLayer"
    by (rule ancestorChain.child [OF _ c1]) (simp add: exampleGroupLayer_def)
  show ?thesis
    by (rule ancestorChain.child [OF _ c2]) (simp add: exampleVectorLayer_def)
qed

theorem getTransformsForLayer_ancestors_witness:
  "distinct (layerIds exampleVectorLayer) \<and>
   ancestorChain exampleVectorLayer [exampleVectorLayer, exampleGroupLayer] examplePathLayer \<and>
   getTransformsForLayer exampleExternals exampleVectorLayer ''path'' =
     Some [Matrix 1 0 0 1 12 12, Matrix 1 0 0 1 3 4, Matrix 1 0 0 1 0 0,
           Matrix 2 0 0 2 0 0, Matrix 1 0 0 1 (-12) (-12)]"
proof -
  have d: "distinct (layerIds exampleVectorLayer)"
    by (simp add: exampleVectorLayer_ids)
  have "getTransformsForLayer exampleExternals exampleVectorLayer (lid examplePathLayer) =
     Some (concat (map (ancestorMatrices exampleExternals) [exampleVectorLayer, exampleGroupLayer]))"
    using d exampleVectorLayer_chain by (rule getTransformsForLayer_ancestors)
  then show ?thesis
    using d exampleVectorLayer_chain
    by (simp add: exampleVectorLayer_def exampleGroupLayer_def examplePathLayer_def
        exampleExternals_def exampleGroupProps_def)
qed

text \<open>
  Without the assumption that ids are unique, the resolver still answers for some layer of
  the tree that carries the id: the first one the depth-first search meets.
\<close>

lemma getTransforms_some_chain:
  "getTransformsFn ex layerId parents current = Some r \<longrightarrow>
     (\<exists>ps t. ancestorChain current ps t \<and> lid t = layerId \<and>
        r = concat (map (ancestorMatrices ex) (parents @ ps)))"
  "getTransformsLoop ex layerId parents current cs = Some r \<longrightarrow>
     (\<exists>c ps t. c \<in> set cs \<and> ancestorChain c ps t \<and> lid t = layerId \<and>
        r = concat (map (ancestorMatrices ex) (parents @ current # ps)))"
proof (induction ex layerId parents current and ex layerId parents current cs
    rule: getTransformsFn_getTransformsLoop.induct)
  case (1 ex layerId parents current)
  show ?case
  proof (cases "lid current = layerId")
    case True
    have "ancestorChain current [] current \<and> lid current = layerId \<and>
        concat (map (ancestorMatrices ex) parents) =
          concat (map (ancestorMatrices ex) (parents @ []))"
      using True by (simp add: ancestorChain.self)
    then have "\<exists>ps t. ancestorChain current ps t \<and> lid t = layerId \<and>
        concat (map (ancestorMatrices ex) parents) =
          concat (map (ancestorMatrices ex) (parents @ ps))"
      by blast
    with True show ?thesis
      by (simp add: getTransformsFn_hit)
  next
    case False
    show ?thesis
    proof
      assume "getTransformsFn ex layerId parents current = Some r"
      with False have "getTransformsLoop ex layerId parents current (children current) = Some r"
        by (simp add: getTransformsFn_miss)
      with "1" False obtain c ps t where
        "c \<in> set (children current)" "ancestorChain c ps t" "lid t = layerId"
        "r = concat (map (ancestorMatrices ex) (parents @ current # ps))"
        by blast
      then show "\<exists>ps t. ancestorChain current ps t \<and> lid t = layerId \<and>
          r = concat (map (ancestorMatrices ex) (parents @ ps))"
        using ancestorChain.child by blast
    qed
  qed
next
  case (2 ex layerId parents current)
  show ?case by simp
next
  case (3 ex layerId parents current child rest)
  show ?case
  proof (cases "getTransformsFn ex layerId (parents @ [current]) child")
    case None
    with "3.IH"(2) show ?thesis by auto
  next
    case (Some q)
    with "3.IH"(1) show ?thesis by auto
  qed
qed

section \<open>Properties of projection and hit test\<close>

text \<open>
  C2. For an id that does not occur in the layer tree, \<open>getTransformsForLayer\<close> returns the
  explicit "not found" result \<open>None\<close> (\<^verbatim>\<open>undefined\<close>), which is not the empty list of
  transforms; \<open>calculateProjectionOntoPath\<close> and \<open>performHitTest\<close> then raise a TypeError
  and so do not go on with an identity transform.
\<close>

theorem getTransformsForLayer_not_found:
  assumes "layerId \<notin> set (layerIds vl)"
    and "vectorLayer this = Some vl"
    and "activePathId this = Some layerId"
  shows "getTransformsForLayer ex vl layerId = None \<and>
         getTransformsForLayer ex vl layerId \<noteq> Some [] \<and>
         calculateProjectionOntoPath ex this mousePoint restrict = Inl TypeError \<and>
         performHitTest ex this mousePoint opts = Inl TypeError"
proof -
  have none: "getTransformsForLayer ex vl layerId = None"
    using assms(1) getTransforms_absent(1) [of layerId vl ex "[]"]
    by (simp add: getTransformsForLayer_def)
  then have "reverse (transformsForActiveLayer ex this) = Inl TypeError"
    using assms(2,3) by (simp add: reverse_def transformsForActiveLayer_def)
  then show ?thesis
    using none by (simp add: calculateProjectionOntoPath_def performHitTest_def)
qed

theorem getTransformsForLayer_not_found_witness:
  "''missing'' \<notin> set (layerIds exampleVectorLayer) \<and>
   getTransformsForLayer exampleExternals exampleVectorLayer ''missing'' = None \<and>
   calculateProjectionOntoPath exampleExternals
     (exampleComponent\<lparr>activePathId := Some ''missing''\<rparr>) (Point 1 1) None = Inl TypeError \<and>
   performHitTest exampleExternals
     (exampleComponent\<lparr>activePathId := Some ''missing''\<rparr>) (Point 1 1) exampleOpts = Inl TypeError"
proof -
  have absent: "''missing'' \<notin> set (layerIds exampleVectorLayer)"
    by (simp add: exampleVectorLayer_ids)
  have vl: "vectorLayer (exampleComponent\<lparr>activePathId := Some ''missing''\<rparr>) =
      Some exampleVectorLayer"
    by (simp add: exampleComponent_def)
  have ap: "activePathId (exampleComponent\<lparr>activePathId := Some ''missing''\<rparr>) = Some ''missing''"
    by simp
  show ?thesis
    using absent
      getTransformsForLayer_not_found [OF absent vl ap, of exampleExternals "Point 1 1" None exampleOpts]
    by simp
qed

text \<open>
  When the transforms of the active layer resolve, \<open>performHitTest\<close> hands the arguments of
  \<open>hitTestArgs\<close> to \<^verbatim>\<open>Path.hitTest\<close>, with the mouse point taken through the inverse of
  the flattened transforms.
\<close>

lemma performHitTest_calls_hitTest:
  assumes "activePathLayer this = Some layer"
    and "reverse (transformsForActiveLayer ex this) = Inr transforms"
  shows "\<exists>args. hitTestArgs this opts = Inr args \<and>
           performHitTest ex this mousePoint opts =
             Inr (hitTest ex (pathData layer)
                   (transformPoint ex mousePoint [invert ex (matrixFlatten ex transforms)]) args)"
proof -
  from assms(1) have t: "truthy (activePathId this)" and g: "getActivePathLayer this = Some layer"
    by (auto simp: activePathLayer_def split: if_splits)
  then show ?thesis
    using assms by (simp add: performHitTest_def hitTestArgs_def activePath_def Let_def)
qed

text \<open>
  C3, as the code has it. With an active path layer: a point hit at distance \<open>distance\<close> is
  accepted iff points are not suppressed (\<open>noPoints\<close>) and the distance is at most the medium
  point radius \<open>8 / cssScale\<close>, times 0.8 for a split command; a segment hit is accepted iff
  segments are not suppressed (\<open>noSegments\<close>) and the distance is at most half the stroke
  width of the active layer, whether or not the layer is stroked; shapes are tested iff the
  layer is filled and shapes are not suppressed (\<open>noShapes\<close>).
\<close>

theorem performHitTest_accepts:
  assumes "activePathLayer this = Some layer"
    and "cssScale this \<noteq> 0"
  shows "(pointHitAccepted this opts distance cmd \<longleftrightarrow>
            \<not> noPoints opts \<and>
            distance \<le> 8 / cssScale this * (if isSplit cmd then 0.8 else 1)) \<and>
         (segmentHitAccepted this opts distance cmd \<longleftrightarrow>
            \<not> noSegments opts \<and> distance \<le> strokeWidth layer / 2) \<and>
         (shapesTested this opts \<longleftrightarrow> isFilled layer \<and> \<not> noShapes opts)"
  using assms(1)
  by (simp add: pointHitAccepted_def segmentHitAccepted_def shapesTested_def hitTestArgs_def
      mediumPointRadius_def MEDIUM_POINT_RADIUS_def SPLIT_POINT_RADIUS_FACTOR_def Let_def)

theorem performHitTest_accepts_witness:
  "activePathLayer exampleComponent = Some examplePathProps \<and> cssScale exampleComponent \<noteq> 0 \<and>
   pointHitAccepted exampleComponent exampleOpts (4/5) (LineTo (Point 0 0) (Point 25 0) False) \<and>
   \<not> pointHitAccepted exampleComponent exampleOpts (4/5) (LineTo (Point 25 25) (Point 0 25) True) \<and>
   segmentHitAccepted exampleComponent exampleOpts 1 (LineTo (Point 0 0) (Point 25 0) False) \<and>
   \<not> shapesTested exampleComponent exampleOpts"
proof -
  have a: "activePathLayer exampleComponent = Some examplePathProps"
    by (simp add: exampleComponent_def activePathLayer_def truthy_def)
  have c: "cssScale exampleComponent \<noteq> 0"
    by (simp add: exampleComponent_def)
  show ?thesis
    using a c performHitTest_accepts [OF a c, of exampleOpts]
    by (simp add: exampleOpts_def examplePathProps_def exampleComponent_def)
qed

text \<open>
  The claim as stated fails: on a layer that is not stroked, with stroke width 2 and the
  default options, a segment at distance 1/2 is accepted; and with the option \<open>noPoints\<close> a
  point at distance 0, within the radius 4/5, is not accepted.
\<close>

theorem performHitTest_unstroked_counterexample:
  "activePathLayer unstrokedComponent = Some unstrokedPathProps \<and>
   \<not> isStroked unstrokedPathProps \<and>
   segmentHitAccepted unstrokedComponent exampleOpts (1/2) (LineTo (Point 0 0) (Point 25 0) False) \<and>
   0 \<le> mediumPointRadius exampleComponent \<and>
   \<not> pointHitAccepted exampleComponent noPointsOpts 0 (LineTo (Point 0 0) (Point 25 0) False)"
  by (simp add: unstrokedComponent_def unstrokedPathProps_def exampleComponent_def
      activePathLayer_def truthy_def segmentHitAccepted_def pointHitAccepted_def hitTestArgs_def
      exampleOpts_def noPointsOpts_def examplePathProps_def mediumPointRadius_def
      MEDIUM_POINT_RADIUS_def Let_def)

section \<open>Properties of resizing\<close>

text \<open>
  The resize subscriber keeps the container at least one CSS pixel wide and high.
\<close>

lemma onCanvasResize_container:
  "1 \<le> cssContainerWidth (fst (onCanvasResize ex drawOverlays this w h)) \<and>
   1 \<le> cssContainerHeight (fst (onCanvasResize ex drawOverlays this w h))"
  by (auto simp: onCanvasResize_def resizeAndDraw_def Let_def max_def split: if_splits)


text \<open>
  C10. After \<open>resizeAndDraw\<close> on an initialised view with positive viewport and container
  sizes, \<open>cssScale\<close> is the minimum of \<open>cssContainerWidth / vlWidth\<close> and
  \<open>cssContainerHeight / vlHeight\<close>, so the scaled viewport exceeds the container in neither
  dimension.
\<close>

theorem resizeAndDraw_cssScale:
  assumes "isViewInit this"
    and "0 < vlSizeWidth this" and "0 < vlSizeHeight this"
    and "0 < cssContainerWidth this" and "0 < cssContainerHeight this"
  shows "cssScale (fst (resizeAndDraw ex drawOverlays this)) =
           min (cssContainerWidth this / vlSizeWidth this)
               (cssContainerHeight this / vlSizeHeight this) \<and>
         vlSizeWidth this * cssScale (fst (resizeAndDraw ex drawOverlays this))
           \<le> cssContainerWidth this \<and>
         vlSizeHeight this * cssScale (fst (resizeAndDraw ex drawOverlays this))
           \<le> cssContainerHeight this"
proof -
  let ?w = "vlSizeWidth this" and ?h = "vlSizeHeight this"
  let ?cw = "cssContainerWidth this" and ?ch = "cssContainerHeight this"
  have scale: "cssScale (fst (resizeAndDraw ex drawOverlays this)) =
      (if ?w / ?h > ?cw / ?ch then ?cw / ?w else ?ch / ?h)"
    using assms(1) by (simp add: resizeAndDraw_def Let_def)
  have cmp: "(?w / ?h > ?cw / ?ch) = (?cw / ?w < ?ch / ?h)"
    using assms(2-5) by (simp add: field_simps)
  show ?thesis
  proof (cases "?w / ?h > ?cw / ?ch")
    case True
    then have lt: "?cw / ?w < ?ch / ?h" using cmp by simp
    then have "?h * (?cw / ?w) \<le> ?ch"
      using assms(3) by (simp add: field_simps)
    with True lt assms(2) show ?thesis
      by (simp add: scale min_def)
  next
    case False
    then have ge: "?ch / ?h \<le> ?cw / ?w" using cmp by simp
    then have "?w * (?ch / ?h) \<le> ?cw"
      using assms(2) by (simp add: field_simps)
    with False ge assms(3) show ?thesis
      by (simp add: scale min_def)
  qed
qed

theorem resizeAndDraw_cssScale_witness:
  "isViewInit exampleComponent \<and> 0 < vlSizeWidth exampleComponent \<and>
   0 < vlSizeHeight exampleComponent \<and> 0 < cssContainerWidth exampleComponent \<and>
   0 < cssContainerHeight exampleComponent \<and>
   cssScale (fst (resizeAndDraw exampleExternals (\<lambda>this. Inr []) exampleComponent)) = 10 \<and>
   min (cssContainerWidth exampleComponent / vlSizeWidth exampleComponent)
       (cssContainerHeight exampleComponent / vlSizeHeight exampleComponent) = 10"
proof -
  have h: "isViewInit exampleComponent" "0 < vlSizeWidth exampleComponent"
    "0 < vlSizeHeight exampleComponent" "0 < cssContainerWidth exampleComponent"
    "0 < cssContainerHeight exampleComponent"
    by (simp_all add: exampleComponent_def)
  have m: "min (cssContainerWidth exampleComponent / vlSizeWidth exampleComponent)
       (cssContainerHeight exampleComponent / vlSizeHeight exampleComponent) = 10"
    by (simp add: exampleComponent_def)
  show ?thesis
    using h m resizeAndDraw_cssScale [OF h, of exampleExternals "\<lambda>this. Inr []"]
    by simp
qed


section \<open>Properties of the double click\<close>

text \<open>
  C5. A double click in the mode \<open>SelectPoints\<close> whose hit test reports \<open>isHit\<close> (with some
  hit in its lists) selects the subpath of the last element of the segment hits followed by
  the shape hits followed by the end point hits: an end point hit wins over a shape hit,
  which wins over a segment hit.
\<close>

theorem onDoubleClick_selects_last_hit:
  assumes "shouldProcessMouseEvents this"
    and "getAppMode this = SelectPoints"
    and "activePathLayer this = Some layer"
    and "performHitTest ex this mouseEvent
           \<lparr>noPoints = False, noSegments = \<not> isStroked layer, noShapes = False,
            optRestrictToSubIdx = None\<rparr> = Inr hitResult"
    and "isHit hitResult"
    and "hits = segmentHits hitResult @ shapeHits hitResult @ endPointHits hitResult"
    and "hits \<noteq> []"
  shows "onDoubleClick ex this mouseEvent =
           Inr (this\<lparr>getSelections :=
                        [\<lparr>selSubIdx = hitSubIdx (last hits), selCmdIdx = None,
                          selSource = canvasType this, selType = SubPathSelection\<rparr>],
                      getAppMode := AddPoints\<rparr>) \<and>
         (endPointHits hitResult \<noteq> [] \<longrightarrow> last hits = last (endPointHits hitResult)) \<and>
         (endPointHits hitResult = [] \<and> shapeHits hitResult \<noteq> [] \<longrightarrow>
            last hits = last (shapeHits hitResult)) \<and>
         (endPointHits hitResult = [] \<and> shapeHits hitResult = [] \<longrightarrow>
            last hits = last (segmentHits hitResult))"
proof -
  have "onDoubleClick ex this mouseEvent =
           Inr (this\<lparr>getSelections :=
                        [\<lparr>selSubIdx = hitSubIdx (last hits), selCmdIdx = None,
                          selSource = canvasType this, selType = SubPathSelection\<rparr>],
                      getAppMode := AddPoints\<rparr>)"
    unfolding onDoubleClick_def Let_def
    using assms(1-5,7) by (simp add: assms(6) [symmetric])
  moreover have "endPointHits hitResult \<noteq> [] \<longrightarrow> last hits = last (endPointHits hitResult)"
    by (simp add: assms(6))
  moreover have "endPointHits hitResult = [] \<and> shapeHits hitResult \<noteq> [] \<longrightarrow>
            last hits = last (shapeHits hitResult)"
    by (simp add: assms(6))
  moreover have "endPointHits hitResult = [] \<and> shapeHits hitResult = [] \<longrightarrow>
            last hits = last (segmentHits hitResult)"
    by (simp add: assms(6))
  ultimately show ?thesis by blast
qed

lemma example_transforms:
  "getTransformsForLayer ex exampleVectorLayer ''path'' \<noteq> None"
  using getTransforms_present(1) [of "''path''" exampleVectorLayer ex "[]"]
  by (simp add: getTransformsForLayer_def exampleVectorLayer_ids)

theorem onDoubleClick_selects_last_hit_witness:
  "shouldProcessMouseEvents exampleComponent \<and> getAppMode exampleComponent = SelectPoints \<and>
   isHit exampleHitResult \<and>
   onDoubleClick hitExternals exampleComponent (Point 1 1) =
     Inr (exampleComponent\<lparr>getSelections :=
            [\<lparr>selSubIdx = 2, selCmdIdx = None, selSource = Start, selType = SubPathSelection\<rparr>],
          getAppMode := AddPoints\<rparr>)"
proof -
  have h1: "shouldProcessMouseEvents exampleComponent"
    by (simp add: shouldProcessMouseEvents_def exampleComponent_def truthy_def)
  have h2: "getAppMode exampleComponent = SelectPoints"
    by (simp add: exampleComponent_def)
  have h3: "activePathLayer exampleComponent = Some examplePathProps"
    by (simp add: exampleComponent_def activePathLayer_def truthy_def)
  obtain ts where ts: "getTransformsForLayer hitExternals exampleVectorLayer ''path'' = Some ts"
    using example_transforms by blast
  have h4: "performHitTest hitExternals exampleComponent (Point 1 1)
           \<lparr>noPoints = False, noSegments = \<not> isStroked examplePathProps, noShapes = False,
            optRestrictToSubIdx = None\<rparr> = Inr exampleHitResult"
  proof -
    have vl: "vectorLayer exampleComponent = Some exampleVectorLayer"
      and ap: "activePathId exampleComponent = Some ''path''"
      and gl: "getActivePathLayer exampleComponent = Some examplePathProps"
      by (simp_all add: exampleComponent_def)
    have r: "reverse (transformsForActiveLayer hitExternals exampleComponent) = Inr (rev ts)"
      by (simp add: reverse_def transformsForActiveLayer_def vl ap ts)
    have ht: "hitTest hitExternals = (\<lambda>path p args. exampleHitResult)"
      by (simp add: hitExternals_def)
    show ?thesis
      by (simp add: performHitTest_def r hitTestArgs_def h3 activePath_def ap gl truthy_def
          Let_def ht)
  qed
  have h5: "isHit exampleHitResult"
    by (simp add: exampleHitResult_def)
  have h6: "[\<lparr>hitSubIdx = 0, hitCmdIdx = Some 3\<rparr>, \<lparr>hitSubIdx = 1, hitCmdIdx = None\<rparr>,
             \<lparr>hitSubIdx = 2, hitCmdIdx = Some 1\<rparr>] =
            segmentHits exampleHitResult @ shapeHits exampleHitResult @ endPointHits exampleHitResult"
    by (simp add: exampleHitResult_def)
  have h7: "[\<lparr>hitSubIdx = 0, hitCmdIdx = Some 3\<rparr>, \<lparr>hitSubIdx = 1, hitCmdIdx = None\<rparr>,
             \<lparr>hitSubIdx = 2, hitCmdIdx = Some (1::nat)\<rparr>] \<noteq> []"
    by simp
  show ?thesis
    using h1 h2 h5 onDoubleClick_selects_last_hit [OF h1 h2 h3 h4 h5 h6 h7]
    by (simp add: exampleComponent_def)
qed


section \<open>Properties of the app mode subscriber\<close>

text \<open>
  C6, as the code has it. After the subscriber has run: a path selector exists iff the mode
  is \<open>SelectPoints\<close>; a segment splitter exists iff the mode is \<open>AddPoints\<close>, or
  \<open>SplitSubPaths\<close> with a stroked active path layer; a shape splitter exists iff the mode is
  \<open>SplitSubPaths\<close> with a filled active path layer. So the controllers of the other modes
  are gone, and at most one controller exists unless the mode is \<open>SplitSubPaths\<close> and the
  active path layer is both stroked and filled. The hover is reset; the selections are
  reset unless the new mode is \<open>AddPoints\<close>, which keeps them.
\<close>

theorem onAppModeChanged_controllers:
  shows "(pathSelector (fst (onAppModeChanged ex drawOverlays this)) \<noteq> None \<longleftrightarrow>
            getAppMode this = SelectPoints) \<and>
         (segmentSplitter (fst (onAppModeChanged ex drawOverlays this)) \<noteq> None \<longleftrightarrow>
            getAppMode this = AddPoints \<or>
            (getAppMode this = SplitSubPaths \<and>
             (\<exists>layer. activePathLayer this = Some layer \<and> isStroked layer))) \<and>
         (shapeSplitter (fst (onAppModeChanged ex drawOverlays this)) \<noteq> None \<longleftrightarrow>
            getAppMode this = SplitSubPaths \<and>
            (\<exists>layer. activePathLayer this = Some layer \<and> isFilled layer)) \<and>
         (\<not> (getAppMode this = SplitSubPaths \<and>
             (\<exists>layer. activePathLayer this = Some layer \<and> isStroked layer \<and> isFilled layer)) \<longrightarrow>
            controllerCount (fst (onAppModeChanged ex drawOverlays this)) \<le> 1) \<and>
         getHover (fst (onAppModeChanged ex drawOverlays this)) = None \<and>
         getSelections (fst (onAppModeChanged ex drawOverlays this)) =
           (if getAppMode this = AddPoints then getSelections this else []) \<and>
         getAppMode (fst (onAppModeChanged ex drawOverlays this)) = getAppMode this"
  by (cases "getAppMode this"; cases "activePathLayer this")
     (auto simp: onAppModeChanged_def Let_def showPenCursor_def resetCursor_def
        activePathLayer_def controllerCount_def)

theorem onAppModeChanged_controllers_witness:
  "getAppMode selectPointsComponent = SelectPoints \<and>
   segmentSplitter selectPointsComponent = Some (SegmentSplitter (Some 0)) \<and>
   pathSelector (fst (onAppModeChanged exampleExternals noOverlays selectPointsComponent)) \<noteq> None \<and>
   segmentSplitter (fst (onAppModeChanged exampleExternals noOverlays selectPointsComponent)) = None \<and>
   shapeSplitter (fst (onAppModeChanged exampleExternals noOverlays selectPointsComponent)) = None \<and>
   controllerCount (fst (onAppModeChanged exampleExternals noOverlays selectPointsComponent)) \<le> 1 \<and>
   getSelections (fst (onAppModeChanged exampleExternals noOverlays selectPointsComponent)) = []"
proof -
  have m: "getAppMode selectPointsComponent = SelectPoints"
    by (simp add: selectPointsComponent_def)
  have s: "segmentSplitter selectPointsComponent = Some (SegmentSplitter (Some 0))"
    by (simp add: selectPointsComponent_def)
  show ?thesis
    using m s onAppModeChanged_controllers [of exampleExternals noOverlays selectPointsComponent]
    by auto
qed

text \<open>
  The claim as stated fails twice: with the mode \<open>SplitSubPaths\<close> and an active path layer
  that is stroked and filled the component holds two controllers, and with the mode
  \<open>AddPoints\<close> the selection is kept.
\<close>

theorem onAppModeChanged_counterexample:
  "controllerCount (fst (onAppModeChanged exampleExternals noOverlays splitSubPathsComponent)) = 2 \<and>
   getSelections (fst (onAppModeChanged exampleExternals noOverlays addPointsComponent)) =
     [exampleSelection]"
  by (simp add: onAppModeChanged_def Let_def showPenCursor_def resetCursor_def
      activePathLayer_def controllerCount_def splitSubPathsComponent_def addPointsComponent_def
      exampleComponent_def truthy_def strokedFilledPathProps_def examplePathProps_def)

section \<open>Properties of executeCommands\<close>

lemma equals_iff: "equals p q \<longleftrightarrow> q = Some p"
  by (cases q) (auto simp: equals_def Point.expand)

lemma executeLoop_append:
  "executeLoop prev (pre @ cmd # post) =
     executeLoop prev pre
     @ executeCommand (if pre = [] then prev else Some (getEnd (last pre))) cmd
     @ executeLoop (Some (getEnd cmd)) post"
  by (induction pre arbitrary: prev) auto

lemma executeCommand_cases:
  "executeCommand prev (MoveTo s e f) = [Ctx_moveTo (xCoord e) (yCoord e)]"
  "executeCommand prev (LineTo s e f) = [Ctx_lineTo (xCoord e) (yCoord e)]"
  "executeCommand prev (QuadraticCurveTo s c1 e f) =
     [Ctx_quadraticCurveTo (xCoord c1) (yCoord c1) (xCoord e) (yCoord e)]"
  "executeCommand prev (CubicCurveTo s c1 c2 e f) =
     [Ctx_bezierCurveTo (xCoord c1) (yCoord c1) (xCoord c2) (yCoord c2) (xCoord e) (yCoord e)]"
  "executeCommand prev (ClosePath s e f) =
     (if prev = Some s then [Ctx_closePath]
      else [Ctx_moveTo (xCoord s) (yCoord s), Ctx_lineTo (xCoord e) (yCoord e)])"
  by (auto simp: executeCommand_def getStart_def getEnd_def equals_iff)

text \<open>
  C8. The callback issues \<^verbatim>\<open>closePath\<close> for a command only when the command is a close
  path whose start point equals the end point of the command before it; a close path
  command for which that fails (in particular the first command of a list) issues a
  \<^verbatim>\<open>moveTo\<close> to its start point and a \<^verbatim>\<open>lineTo\<close> to its end point. The calls of
  \<open>executeCommands\<close> on a list hold the calls of each command at its place, and a list of a
  single close path command draws the line after the \<^verbatim>\<open>moveTo\<close> of the single-command
  case.
\<close>

theorem executeCommands_closePath:
  "(Ctx_closePath \<in> set (executeCommand previousEndPoint cmd) \<longleftrightarrow>
      getSvgChar cmd = CHR ''Z'' \<and> previousEndPoint = Some (getStart cmd)) \<and>
   (getSvgChar cmd = CHR ''Z'' \<longrightarrow>
      executeCommand previousEndPoint cmd =
        (if previousEndPoint = Some (getStart cmd) then [Ctx_closePath]
         else [Ctx_moveTo (xCoord (getStart cmd)) (yCoord (getStart cmd)),
               Ctx_lineTo (xCoord (getEnd cmd)) (yCoord (getEnd cmd))])) \<and>
   executeCommands ctx (pre @ cmd # post) transforms =
     map (Pair ctx)
       ([Ctx_save]
        @ map (\<lambda>m. Ctx_transform (m_a m) (m_b m) (m_c m) (m_d m) (m_e m) (m_f m)) transforms
        @ [Ctx_beginPath]
        @ (if pre = [] \<and> post = [] \<and> getSvgChar cmd \<noteq> CHR ''M''
           then [Ctx_moveTo (xCoord (getStart cmd)) (yCoord (getStart cmd))] else [])
        @ executeLoop None pre
        @ executeCommand (previousEnd pre) cmd
        @ executeLoop (Some (getEnd cmd)) post
        @ [Ctx_restore]) \<and>
   (getSvgChar cmd = CHR ''Z'' \<longrightarrow>
      executeCommands ctx [cmd] transforms =
        map (Pair ctx)
          ([Ctx_save]
           @ map (\<lambda>m. Ctx_transform (m_a m) (m_b m) (m_c m) (m_d m) (m_e m) (m_f m)) transforms
           @ [Ctx_beginPath,
              Ctx_moveTo (xCoord (getStart cmd)) (yCoord (getStart cmd)),
              Ctx_moveTo (xCoord (getStart cmd)) (yCoord (getStart cmd)),
              Ctx_lineTo (xCoord (getEnd cmd)) (yCoord (getEnd cmd)),
              Ctx_restore]))"
proof -
  have a: "Ctx_closePath \<in> set (executeCommand previousEndPoint cmd) \<longleftrightarrow>
      getSvgChar cmd = CHR ''Z'' \<and> previousEndPoint = Some (getStart cmd)"
    by (cases cmd) (auto simp: executeCommand_cases getStart_def)
  have b: "getSvgChar cmd = CHR ''Z'' \<longrightarrow>
      executeCommand previousEndPoint cmd =
        (if previousEndPoint = Some (getStart cmd) then [Ctx_closePath]
         else [Ctx_moveTo (xCoord (getStart cmd)) (yCoord (getStart cmd)),
               Ctx_lineTo (xCoord (getEnd cmd)) (yCoord (getEnd cmd))])"
    by (cases cmd) (auto simp: executeCommand_cases getStart_def getEnd_def)
  have len: "length (pre @ cmd # post) = 1 \<longleftrightarrow> pre = [] \<and> post = []"
    by (cases pre) auto
  have c: "executeCommands ctx (pre @ cmd # post) transforms =
     map (Pair ctx)
       ([Ctx_save]
        @ map (\<lambda>m. Ctx_transform (m_a m) (m_b m) (m_c m) (m_d m) (m_e m) (m_f m)) transforms
        @ [Ctx_beginPath]
        @ (if pre = [] \<and> post = [] \<and> getSvgChar cmd \<noteq> CHR ''M''
           then [Ctx_moveTo (xCoord (getStart cmd)) (yCoord (getStart cmd))] else [])
        @ executeLoop None pre
        @ executeCommand (previousEnd pre) cmd
        @ executeLoop (Some (getEnd cmd)) post
        @ [Ctx_restore])"
    unfolding executeCommands_def executeLoop_append previousEnd_def len
    by (cases pre) auto
  have d: "getSvgChar cmd = CHR ''Z'' \<longrightarrow>
      executeCommands ctx [cmd] transforms =
        map (Pair ctx)
          ([Ctx_save]
           @ map (\<lambda>m. Ctx_transform (m_a m) (m_b m) (m_c m) (m_d m) (m_e m) (m_f m)) transforms
           @ [Ctx_beginPath,
              Ctx_moveTo (xCoord (getStart cmd)) (yCoord (getStart cmd)),
              Ctx_moveTo (xCoord (getStart cmd)) (yCoord (getStart cmd)),
              Ctx_lineTo (xCoord (getEnd cmd)) (yCoord (getEnd cmd)),
              Ctx_restore])"
    by (cases cmd) (auto simp: executeCommands_def executeCommand_cases getStart_def getEnd_def)
  from a b c d show ?thesis by blast
qed

theorem executeCommands_closePath_witness:
  "getSvgChar (ClosePath (Point 0 25) (Point 0 0) False) = CHR ''Z'' \<and>
   executeCommand (Some (Point 0 25)) (ClosePath (Point 0 25) (Point 0 0) False) =
     [Ctx_closePath] \<and>
   executeCommand (Some (Point 1 25)) (ClosePath (Point 0 25) (Point 0 0) False) =
     [Ctx_moveTo 0 25, Ctx_lineTo 0 0] \<and>
   executeCommands OverlayCtx [ClosePath (Point 0 25) (Point 0 0) False] [] =
     map (Pair OverlayCtx)
       [Ctx_save, Ctx_beginPath, Ctx_moveTo 0 25, Ctx_moveTo 0 25, Ctx_lineTo 0 0, Ctx_restore]"
proof -
  have z: "getSvgChar (ClosePath (Point 0 25) (Point 0 0) False) = CHR ''Z''"
    by simp
  show ?thesis
    using z
      executeCommands_closePath [of "Some (Point 0 25)" "ClosePath (Point 0 25) (Point 0 0) False"
        OverlayCtx "[]" "[]" "[]"]
      executeCommands_closePath [of "Some (Point 1 25)" "ClosePath (Point 0 25) (Point 0 0) False"
        OverlayCtx "[]" "[]" "[]"]
    by (simp add: getStart_def getEnd_def)
qed

section \<open>Properties of drawPaths\<close>

text \<open>\<open>executeCommands\<close> neither strokes nor sets the dash pattern, and draws on its context.\<close>

lemma executeCommand_plain:
  "Ctx_stroke \<notin> set (executeCommand prev cmd)"
  "filter isLineDashCall (executeCommand prev cmd) = []"
  by (cases cmd; simp add: executeCommand_cases isLineDashCall_def)+

lemma executeLoop_plain:
  "Ctx_stroke \<notin> set (executeLoop prev cmds)"
  "filter isLineDashCall (executeLoop prev cmds) = []"
  by (induction cmds arbitrary: prev) (simp_all add: executeCommand_plain)

lemma executeCommands_plain:
  "Ctx_stroke \<notin> snd ` set (executeCommands ctx cmds transforms)"
  "filter isLineDashCall (map snd (executeCommands ctx cmds transforms)) = []"
  by (auto simp: executeCommands_def executeLoop_plain isLineDashCall_def comp_def
      image_iff filter_empty_conv)


text \<open>The example path layer, drawn in the example tree.\<close>

lemma example_getTransforms:
  "getTransformsForLayer exampleExternals exampleVectorLayer ''path'' =
     Some [Matrix 1 0 0 1 12 12, Matrix 1 0 0 1 3 4, Matrix 1 0 0 1 0 0,
           Matrix 2 0 0 2 0 0, Matrix 1 0 0 1 (-12) (-12)]"
proof -
  have d: "distinct (layerIds exampleVectorLayer)"
    by (simp add: exampleVectorLayer_ids)
  have "getTransformsFn exampleExternals (lid examplePathLayer) [] exampleVectorLayer =
      Some (concat (map (ancestorMatrices exampleExternals)
        ([] @ [exampleVectorLayer, exampleGroupLayer])))"
    by (rule getTransformsFn_chain [OF exampleVectorLayer_chain d])
  then show ?thesis
    by (simp add: getTransformsForLayer_def exampleVectorLayer_def exampleGroupLayer_def
        examplePathLayer_def exampleExternals_def exampleGroupProps_def)
qed


lemma example_extractors:
  "enabledCommands exampleComponent examplePathLayer = exampleCommands"
  "disabledCommands exampleComponent examplePathLayer = []"
  "enabledCommands previewComponent examplePathLayer = []"
  "disabledCommands previewComponent examplePathLayer = exampleCommands"
  by (simp_all add: enabledCommands_def disabledCommands_def exampleComponent_def
      previewComponent_def examplePathLayer_def examplePathProps_def examplePath_def
      exampleCommands_def)

lemma example_visit_path:
  assumes "extractFn examplePathLayer = exampleCommands"
  shows "drawPathsVisit exampleExternals exampleVectorLayer ctx extractFn examplePathLayer =
         Inr (map (Pair ctx) examplePathCalls)"
proof -
  have l: "lid examplePathLayer = ''path''" "is_PathLayer examplePathLayer"
    "\<not> is_ClipPathLayer examplePathLayer" "pathProps examplePathLayer = examplePathProps"
    by (simp_all add: examplePathLayer_def)
  have e: "getScale exampleExternals = (\<lambda>m. max \<bar>m_a m\<bar> \<bar>m_d m\<bar>)"
    "flattenTransforms exampleExternals = (\<lambda>ms. foldr dot ms (Matrix 1 0 0 1 0 0))"
    "androidToCssColor exampleExternals = (\<lambda>color opacity. color)"
    by (simp_all add: exampleExternals_def)
  have t: "getTransformsForLayer exampleExternals exampleVectorLayer ''path'' =
     Some [Matrix 1 0 0 1 12 12, Matrix 1 0 0 1 3 4, Matrix 1 0 0 1 0 0,
           Matrix 2 0 0 2 0 0, Matrix 1 0 0 1 (-12) (-12)]"
    by (rule example_getTransforms)
  show ?thesis
    unfolding drawPathsVisit_def assms
    by (simp add: l e t Let_def executeCommands_def executeCommand_cases exampleCommands_def
        examplePathCalls_def getEnd_def examplePathProps_def examplePath_def dot_def
        jsRemainder_def)
qed




lemma example_visit_enabled:
  "drawPathsVisit exampleExternals exampleVectorLayer RenderingCtx
     (enabledCommands exampleComponent) (PathLayer ''path'' examplePathProps) =
   Inr (map (Pair RenderingCtx) examplePathCalls)"
  using example_visit_path [of "enabledCommands exampleComponent" RenderingCtx]
  by (simp add: example_extractors examplePathLayer_def [symmetric])

text \<open>The path layer of the second tree, drawn in that tree.\<close>

lemma wrappedVectorLayer_ids: "layerIds wrappedVectorLayer = [''vector'', ''group'', ''path'']"
  by (simp add: layerIds_unfold wrappedVectorLayer_def wrappedGroupLayer_def wrappedPathLayer_def)

lemma wrappedVectorLayer_chain:
  "ancestorChain wrappedVectorLayer [wrappedVectorLayer, wrappedGroupLayer] wrappedPathLayer"
proof -
  have c1: "ancestorChain wrappedPathLayer [] wrappedPathLayer"
    by (rule ancestorChain.self)
  have c2: "ancestorChain wrappedGroupLayer [wrappedGroupLayer] wrappedPathLayer"
    by (rule ancestorChain.child [OF _ c1]) (simp add: wrappedGroupLayer_def)
  show ?thesis
    by (rule ancestorChain.child [OF _ c2]) (simp add: wrappedVectorLayer_def)
qed

lemma wrapped_getTransforms:
  "getTransformsForLayer exampleExternals wrappedVectorLayer ''path'' =
     Some [Matrix 1 0 0 1 12 12, Matrix 1 0 0 1 3 4, Matrix 1 0 0 1 0 0,
           Matrix 2 0 0 2 0 0, Matrix 1 0 0 1 (-12) (-12)]"
proof -
  have d: "distinct (layerIds wrappedVectorLayer)"
    by (simp add: wrappedVectorLayer_ids)
  have "getTransformsFn exampleExternals (lid wrappedPathLayer) [] wrappedVectorLayer =
      Some (concat (map (ancestorMatrices exampleExternals)
        ([] @ [wrappedVectorLayer, wrappedGroupLayer])))"
    by (rule getTransformsFn_chain [OF wrappedVectorLayer_chain d])
  then show ?thesis
    by (simp add: getTransformsForLayer_def wrappedVectorLayer_def wrappedGroupLayer_def
        wrappedPathLayer_def exampleExternals_def exampleGroupProps_def)
qed


lemma wrapped_extractors:
  "enabledCommands dimmedComponent wrappedPathLayer = []"
  "disabledCommands dimmedComponent wrappedPathLayer = exampleCommands"
  by (simp_all add: enabledCommands_def disabledCommands_def exampleComponent_def
      dimmedComponent_def previewComponent_def wrappedPathLayer_def wrappedPathProps_def
      examplePathProps_def examplePath_def exampleCommands_def)

lemma wrapped_visit_path:
  assumes "extractFn wrappedPathLayer = exampleCommands"
  shows "drawPathsVisit exampleExternals wrappedVectorLayer ctx extractFn wrappedPathLayer =
         Inr (map (Pair ctx) examplePathCalls)"
proof -
  have l: "lid wrappedPathLayer = ''path''" "is_PathLayer wrappedPathLayer"
    "\<not> is_ClipPathLayer wrappedPathLayer" "pathProps wrappedPathLayer = wrappedPathProps"
    by (simp_all add: wrappedPathLayer_def)
  have e: "getScale exampleExternals = (\<lambda>m. max \<bar>m_a m\<bar> \<bar>m_d m\<bar>)"
    "flattenTransforms exampleExternals = (\<lambda>ms. foldr dot ms (Matrix 1 0 0 1 0 0))"
    "androidToCssColor exampleExternals = (\<lambda>color opacity. color)"
    by (simp_all add: exampleExternals_def)
  show ?thesis
    unfolding drawPathsVisit_def assms
    by (simp add: l e wrapped_getTransforms Let_def executeCommands_def executeCommand_cases
        exampleCommands_def examplePathCalls_def getEnd_def wrappedPathProps_def
        examplePathProps_def examplePath_def dot_def jsRemainder_def)
qed




lemma wrapped_visit_disabled:
  "drawPathsVisit exampleExternals wrappedVectorLayer OffscreenSubPathCtx
     (disabledCommands dimmedComponent) (PathLayer ''path'' wrappedPathProps) =
   Inr (map (Pair OffscreenSubPathCtx) examplePathCalls)"
  using wrapped_visit_path [of "disabledCommands dimmedComponent" OffscreenSubPathCtx]
  by (simp add: wrapped_extractors wrappedPathLayer_def [symmetric])

text \<open>
  C9. For a path layer that \<open>drawPaths\<close> visits, \<^verbatim>\<open>stroke\<close> is called iff the layer has
  commands to draw, is stroked, has a stroke width other than zero, and its
  \<open>trimPathStart\<close> differs from its \<open>trimPathEnd\<close>; with equal trim start and end the outline
  is not stroked, also on a stroked layer.
\<close>

theorem drawPaths_stroke:
  assumes "drawPathsVisit ex vl ctx extractFn (PathLayer i props) = Inr calls"
  shows "Ctx_stroke \<in> snd ` set calls \<longleftrightarrow>
           extractFn (PathLayer i props) \<noteq> [] \<and> isStroked props \<and> strokeWidth props \<noteq> 0 \<and>
           trimPathStart props \<noteq> trimPathEnd props"
proof (cases "extractFn (PathLayer i props) = []")
  case True
  with assms show ?thesis by (auto simp: drawPathsVisit_def)
next
  case False
  with assms obtain transforms where
    t: "getTransformsForLayer ex vl i = Some transforms"
    by (auto simp: drawPathsVisit_def Let_def split: option.splits)
  have ns: "Ctx_stroke \<notin> snd ` set (executeCommands ctx (extractFn (PathLayer i props)) transforms)"
    by (rule executeCommands_plain)
  have pair: "\<And>xs. snd ` set (map (Pair ctx) xs) = set xs"
    by (auto simp: image_iff)
  from assms False t have eq: "calls = projr (drawPathsVisit ex vl ctx extractFn (PathLayer i props))"
    by simp
  have "Ctx_stroke \<in> snd ` set (projr (drawPathsVisit ex vl ctx extractFn (PathLayer i props)))
          \<longleftrightarrow> isStroked props \<and> strokeWidth props \<noteq> 0 \<and>
           trimPathStart props \<noteq> trimPathEnd props"
    using False t ns
    by (auto simp: drawPathsVisit_def Let_def image_Un pair)
  then show ?thesis using eq False by simp
qed

theorem drawPaths_stroke_witness:
  "drawPathsVisit exampleExternals exampleVectorLayer RenderingCtx
     (enabledCommands exampleComponent) (PathLayer ''path'' examplePathProps) =
     Inr (map (Pair RenderingCtx) examplePathCalls) \<and>
   Ctx_stroke \<in> snd ` set (map (Pair RenderingCtx) examplePathCalls) \<and>
   isStroked examplePathProps \<and> strokeWidth examplePathProps = 2 \<and>
   trimPathStart examplePathProps = 1/4 \<and> trimPathEnd examplePathProps = 3/4"
proof -
  have p: "isStroked examplePathProps \<and> strokeWidth examplePathProps = 2 \<and>
      trimPathStart examplePathProps = 1/4 \<and> trimPathEnd examplePathProps = 3/4"
    by (simp add: examplePathProps_def)
  have c: "enabledCommands exampleComponent (PathLayer ''path'' examplePathProps) \<noteq> []"
    using example_extractors(1) by (simp add: examplePathLayer_def exampleCommands_def)
  show ?thesis
    using p c example_visit_enabled drawPaths_stroke [OF example_visit_enabled]
    by simp
qed

text \<open>
  The remainder by 1 is the fractional part of a sum that is not negative, where it agrees
  with the mathematical modulo; on a negative sum it keeps the sign of the sum.
\<close>

lemma jsRemainder_nonneg: "0 \<le> a \<Longrightarrow> jsRemainder a 1 = frac a"
  by (simp add: jsRemainder_def frac_def)

lemma jsRemainder_neg: "a < 0 \<Longrightarrow> jsRemainder a 1 = - frac (- a)"
  by (simp add: jsRemainder_def frac_def ceiling_def)

text \<open>
  C4. For a path layer that is drawn and whose trim values are not \<open>(0, 1, 0)\<close>, with a sum
  \<open>trimPathStart + trimPathOffset\<close> that is not negative, the dash calls are exactly: the
  dash array \<open>[f * L, (1 - f + 0.001) * L]\<close>, where \<open>L\<close> is the path length and \<open>f\<close> is
  \<open>trimPathEnd - trimPathStart\<close>, plus 1 when \<open>trimPathStart > trimPathEnd\<close>; then the dash
  offset \<open>L * (1 - ((trimPathStart + trimPathOffset) mod 1))\<close>, the modulo of a real by 1
  being its fractional part \<open>frac\<close>. For the trim values 0.25, 0.75, 0 and the length 100
  the dash array is \<open>[50, 50.1]\<close>.
\<close>

theorem drawPaths_trimPath_dash:
  assumes "drawPathsVisit ex vl ctx extractFn (PathLayer i props) = Inr calls"
    and "extractFn (PathLayer i props) \<noteq> []"
    and "(trimPathStart props, trimPathEnd props, trimPathOffset props) \<noteq> (0, 1, 0)"
    and "shown = trimPathEnd props - trimPathStart props
                 + (if trimPathStart props > trimPathEnd props then 1 else 0)"
    and "len = getPathLength (pathData props)"
    and "0 \<le> trimPathStart props + trimPathOffset props"
  shows "filter isLineDashCall (map snd calls) =
           [Ctx_setLineDash [shown * len, (1 - shown + 0.001) * len],
            Set_lineDashOffset
              (len * (1 - frac (trimPathStart props + trimPathOffset props)))] \<and>
         (trimPathStart props = 0.25 \<and> trimPathEnd props = 0.75 \<and> trimPathOffset props = 0
            \<and> len = 100 \<longrightarrow>
          filter isLineDashCall (map snd calls) =
            [Ctx_setLineDash [50, 50.1], Set_lineDashOffset 75])"
proof -
  from assms(1,2) obtain transforms where
    t: "getTransformsForLayer ex vl i = Some transforms"
    by (auto simp: drawPathsVisit_def Let_def split: option.splits)
  have pair: "\<And>xs. map snd (map (Pair ctx) xs) = xs"
    by (simp add: comp_def)
  have nd: "filter isLineDashCall
      (map snd (executeCommands ctx (extractFn (PathLayer i props)) transforms)) = []"
    by (rule executeCommands_plain)
  from assms(1,2) t have eq: "calls = projr (drawPathsVisit ex vl ctx extractFn (PathLayer i props))"
    by simp
  have code: "filter isLineDashCall (map snd calls) =
           [Ctx_setLineDash [shown * len, (1 - shown + 0.001) * len],
            Set_lineDashOffset
              (len * (1 - jsRemainder (trimPathStart props + trimPathOffset props) 1))]"
    unfolding eq using assms(2,3) t nd
    by (auto simp: drawPathsVisit_def Let_def pair isLineDashCall_def assms(4,5))
  have main: "filter isLineDashCall (map snd calls) =
           [Ctx_setLineDash [shown * len, (1 - shown + 0.001) * len],
            Set_lineDashOffset
              (len * (1 - frac (trimPathStart props + trimPathOffset props)))]"
    unfolding code jsRemainder_nonneg [OF assms(6)] by (rule refl)
  have "trimPathStart props = 0.25 \<and> trimPathEnd props = 0.75 \<and> trimPathOffset props = 0
            \<and> len = 100 \<longrightarrow>
          filter isLineDashCall (map snd calls) =
            [Ctx_setLineDash [50, 50.1], Set_lineDashOffset 75]"
  proof (intro impI, elim conjE)
    assume a: "trimPathStart props = 0.25" and b: "trimPathEnd props = 0.75"
      and c: "trimPathOffset props = 0" and d: "len = 100"
    have s: "shown = 0.5"
      unfolding assms(4) a b by simp
    have r: "frac (0.25 + 0 :: real) = 0.25"
      by (simp add: frac_def)
    show "filter isLineDashCall (map snd calls) =
            [Ctx_setLineDash [50, 50.1], Set_lineDashOffset 75]"
      unfolding main a c d s r by simp
  qed
  with main show ?thesis by blast
qed

theorem drawPaths_trimPath_dash_witness:
  "drawPathsVisit exampleExternals exampleVectorLayer RenderingCtx
     (enabledCommands exampleComponent) (PathLayer ''path'' examplePathProps) =
     Inr (map (Pair RenderingCtx) examplePathCalls) \<and>
   trimPathStart examplePathProps = 0.25 \<and> trimPathEnd examplePathProps = 0.75 \<and>
   trimPathOffset examplePathProps = 0 \<and> getPathLength (pathData examplePathProps) = 100 \<and>
   filter isLineDashCall (map snd (map (Pair RenderingCtx) examplePathCalls)) =
     [Ctx_setLineDash [50, 50.1], Set_lineDashOffset 75] \<and>
   drawPathsVisit exampleExternals wrappedVectorLayer OffscreenSubPathCtx
     (disabledCommands dimmedComponent) (PathLayer ''path'' wrappedPathProps) =
     Inr (map (Pair OffscreenSubPathCtx) examplePathCalls) \<and>
   trimPathStart wrappedPathProps = 0.75 \<and> trimPathEnd wrappedPathProps = 0.25 \<and>
   trimPathOffset wrappedPathProps = 0.5 \<and> getPathLength (pathData wrappedPathProps) = 100 \<and>
   frac (trimPathStart wrappedPathProps + trimPathOffset wrappedPathProps) = 0.25 \<and>
   filter isLineDashCall (map snd (map (Pair OffscreenSubPathCtx) examplePathCalls)) =
     [Ctx_setLineDash [(0.25 - 0.75 + 1) * 100, (1 - (0.25 - 0.75 + 1) + 0.001) * 100],
      Set_lineDashOffset (100 * (1 - 0.25))]"
proof -
  have p: "trimPathStart examplePathProps = 0.25" "trimPathEnd examplePathProps = 0.75"
    "trimPathOffset examplePathProps = 0" "getPathLength (pathData examplePathProps) = 100"
    by (simp_all add: examplePathProps_def examplePath_def)
  have c: "enabledCommands exampleComponent (PathLayer ''path'' examplePathProps) \<noteq> []"
    using example_extractors(1) by (simp add: examplePathLayer_def exampleCommands_def)
  have n: "(trimPathStart examplePathProps, trimPathEnd examplePathProps,
      trimPathOffset examplePathProps) \<noteq> (0, 1, 0)"
    by (simp add: p)
  have s: "(1/2 :: real) = trimPathEnd examplePathProps - trimPathStart examplePathProps
                 + (if trimPathStart examplePathProps > trimPathEnd examplePathProps then 1 else 0)"
    by (simp add: p)
  have l: "(100 :: real) = getPathLength (pathData examplePathProps)"
    by (simp add: p)
  have z: "0 \<le> trimPathStart examplePathProps + trimPathOffset examplePathProps"
    by (simp add: p)
  have f: "filter isLineDashCall (map snd (map (Pair RenderingCtx) examplePathCalls)) =
     [Ctx_setLineDash [50, 50.1], Set_lineDashOffset 75]"
    using drawPaths_trimPath_dash [OF example_visit_enabled c n s l z] p(1,2,3) by blast
  have q: "trimPathStart wrappedPathProps = 0.75" "trimPathEnd wrappedPathProps = 0.25"
    "trimPathOffset wrappedPathProps = 0.5" "getPathLength (pathData wrappedPathProps) = 100"
    by (simp_all add: wrappedPathProps_def examplePathProps_def examplePath_def)
  have c': "disabledCommands dimmedComponent (PathLayer ''path'' wrappedPathProps) \<noteq> []"
    using wrapped_extractors(2) by (simp add: wrappedPathLayer_def exampleCommands_def)
  have n': "(trimPathStart wrappedPathProps, trimPathEnd wrappedPathProps,
      trimPathOffset wrappedPathProps) \<noteq> (0, 1, 0)"
    by (simp add: q)
  have s': "(0.25 - 0.75 + 1 :: real) = trimPathEnd wrappedPathProps - trimPathStart wrappedPathProps
                 + (if trimPathStart wrappedPathProps > trimPathEnd wrappedPathProps then 1 else 0)"
    by (simp add: q)
  have l': "(100 :: real) = getPathLength (pathData wrappedPathProps)"
    by (simp add: q)
  have z': "0 \<le> trimPathStart wrappedPathProps + trimPathOffset wrappedPathProps"
    by (simp add: q)
  have fr: "frac (trimPathStart wrappedPathProps + trimPathOffset wrappedPathProps) = 0.25"
    unfolding q by (simp add: frac_def)
  have f': "filter isLineDashCall (map snd (map (Pair OffscreenSubPathCtx) examplePathCalls)) =
     [Ctx_setLineDash [(0.25 - 0.75 + 1) * 100, (1 - (0.25 - 0.75 + 1) + 0.001) * 100],
      Set_lineDashOffset (100 * (1 - 0.25))]"
    using drawPaths_trimPath_dash [OF wrapped_visit_disabled c' n' s' l' z']
    unfolding fr by blast
  show ?thesis
    using p example_visit_enabled f q wrapped_visit_disabled fr f' by blast
qed

section \<open>Properties of draw\<close>






end
